theory Spec2Isabelle
  imports Complex_Main
begin

section \<open>Data model\<close>

text \<open>
  The development embeds \<^verbatim>\<open>pyxem/generators/library_generator.py\<close>: the two library
  generators \<^verbatim>\<open>DiffractionLibraryGenerator.get_diffraction_library\<close> and
  \<^verbatim>\<open>VectorLibraryGenerator.get_vector_library\<close>.

  Python floats are modelled by \<^typ>\<open>real\<close> and numpy's integer type by \<^typ>\<open>int\<close>;
  no statement below is about rounding error, NaN or integer overflow.

  Python exceptions are values: \<open>AttributeError name\<close> for a missing attribute,
  \<open>IndexError\<close> for an index out of range, and \<open>Raised e\<close> for an exception \<open>e\<close>
  raised by the diffraction calculator, which the generator never catches (the exception
  object is identified by a string).
\<close>

datatype error = AttributeError string | IndexError | Raised string

type_synonym matrix = "real list list"

text \<open>
  A \<^verbatim>\<open>diffpy.structure.lattice.Lattice\<close>: the six cell parameters \<^verbatim>\<open>a, b, c, alpha,
  beta, gamma\<close> and the base rotation \<^verbatim>\<open>baserot\<close>. (The fields carry a prefix:
  one-letter constants would capture the variables of every later statement.)
\<close>

record lattice =
  lat_a :: real
  lat_b :: real
  lat_c :: real
  lat_alpha :: real
  lat_beta :: real
  lat_gamma :: real
  baserot :: matrix

text \<open>
  A \<^verbatim>\<open>diffpy.structure.Structure\<close>: its lattice and its atoms, the latter opaque.
  Structures are mutable Python objects that the library refers to, so they live in a
  store, and two phases may refer to the same object.
\<close>

record 'at Structure =
  lattice :: lattice
  atoms :: 'at

type_synonym addr = nat

type_synonym 'at store = "addr \<Rightarrow> 'at Structure"

type_synonym orientation = "real list"

type_synonym cell = "real \<times> real \<times> real \<times> real \<times> real \<times> real"

text \<open>
  Modelled from the spec: the class \<^verbatim>\<open>StructureLibrary\<close> (module
  \<^verbatim>\<open>pyxem.libraries.structure_library\<close>) is not among the source files. The spec describes
  it as an ordered mapping from phase identifier to a pair (representative crystal
  structure, ordered sequence of orientation triples) that carries the auxiliary
  attributes \<^verbatim>\<open>identifiers\<close> and \<^verbatim>\<open>structures\<close>, and notes that the source reads the first
  under the name \<^verbatim>\<open>indentifiers\<close>.

  The generators take everything from the object bound to the attribute \<^verbatim>\<open>struct_lib\<close>:
  its keys in insertion order, the pair (structure, orientations) under each key, and the
  two attributes \<^verbatim>\<open>indentifiers\<close> and \<^verbatim>\<open>structures\<close>, read by name. The model keeps the
  attributes of that object as a map from names to values; reading an attribute the
  object does not have raises \<^verbatim>\<open>AttributeError\<close>. Keys of a dictionary are distinct.

  The attributes of the \<^verbatim>\<open>StructureLibrary\<close> object itself, \<^verbatim>\<open>identifiers\<close> and
  \<^verbatim>\<open>structures\<close> among them, are a map from names to values as well. After lines 88 and
  172 the generators have no name for that object any more and read none of them.
\<close>

record ('k, 'x) struct_lib_obj =
  items :: "('k \<times> addr \<times> orientation list) list"
  attrs :: "string \<rightharpoonup> 'x"

record ('k, 'x) StructureLibrary =
  struct_lib :: "('k, 'x) struct_lib_obj"
  attributes :: "string \<rightharpoonup> 'x"

definition getattr :: "('k, 'x) struct_lib_obj \<Rightarrow> string \<Rightarrow> error + 'x" where
  "getattr obj name = (case attrs obj name of None \<Rightarrow> Inl (AttributeError name) | Some v \<Rightarrow> Inr v)"

text \<open>
  The record stored for one retained orientation (the Python dictionary with the keys
  \<^verbatim>\<open>'Sim'\<close>, \<^verbatim>\<open>'intensities'\<close>, \<^verbatim>\<open>'pixel_coords'\<close>, \<^verbatim>\<open>'pattern_norm'\<close>).
\<close>

record 'd sim_record =
  Sim :: 'd
  intensities :: "real list"
  pixel_coords :: "(int \<times> int) list"
  pattern_norm :: real

text \<open>
  Modelled from the spec: the classes \<^verbatim>\<open>DiffractionLibrary\<close> and
  \<^verbatim>\<open>DiffractionVectorLibrary\<close> (package \<^verbatim>\<open>pyxem.libraries\<close>) are not among the source
  files. The spec describes them as plain keyed containers that carry the two attributes
  \<^verbatim>\<open>identifiers\<close> and \<^verbatim>\<open>structures\<close>; the generators assign both before they return
  the library.
\<close>

record ('k, 'v, 'x) library =
  lib_dict :: "'k \<rightharpoonup> 'v"
  identifiers :: 'x
  structures :: 'x

type_synonym 'd phase_library = "orientation \<rightharpoonup> 'd sim_record"

text \<open>
  The collaborators of \<^verbatim>\<open>get_diffraction_library\<close>, none of them among the source files,
  are parameters: \<^verbatim>\<open>transforms3d.euler.euler2mat\<close> (called with the axes \<^verbatim>\<open>'rzxz'\<close>), what
  diffpy's \<^verbatim>\<open>Structure.placeInLattice\<close> does to the atoms (given the old and the new
  lattice), the calculator's \<^verbatim>\<open>calculate_ed_data\<close>, which may raise, and the simulation
  object's \<^verbatim>\<open>calibration\<close> setter, \<^verbatim>\<open>intensities\<close> and \<^verbatim>\<open>calibrated_coordinates\<close>. The
  calculator is a function of the structure it is given. A row of the calibrated
  coordinates is its first two columns and the list of the remaining ones.
\<close>

record ('at, 'd) externals =
  euler2mat :: "real \<Rightarrow> real \<Rightarrow> real \<Rightarrow> matrix"
  place_atoms :: "lattice \<Rightarrow> lattice \<Rightarrow> 'at \<Rightarrow> 'at"
  calculate_ed_data :: "'at Structure \<Rightarrow> real \<Rightarrow> bool \<Rightarrow> string + 'd"
  set_calibration :: "real \<Rightarrow> 'd \<Rightarrow> 'd"
  get_intensities :: "'d \<Rightarrow> real list"
  calibrated_coordinates :: "'d \<Rightarrow> (real \<times> real \<times> real list) list"

text \<open>The arguments of one call of \<^verbatim>\<open>get_diffraction_library\<close> besides the library.\<close>

record args =
  calibration :: real
  reciprocal_radius :: real
  half_shape :: "real \<times> real"
  with_direct_beam :: bool

definition call_args :: "real \<Rightarrow> real \<Rightarrow> real \<times> real \<Rightarrow> bool \<Rightarrow> args" where
  "call_args calibration0 reciprocal_radius0 half_shape0 with_direct_beam0 =
     \<lparr>calibration = calibration0, reciprocal_radius = reciprocal_radius0,
      half_shape = half_shape0, with_direct_beam = with_direct_beam0\<rparr>"

section \<open>numpy and diffpy primitives\<close>

definition deg2rad :: "real \<Rightarrow> real" where
  "deg2rad x = x * (pi / 180)"

text \<open>\<^verbatim>\<open>np.rint\<close>: the nearest integer, a tie going to the even neighbour.\<close>

definition rint :: "real \<Rightarrow> real" where
  "rint x =
     (let f = \<lfloor>x\<rfloor>; r = x - of_int f
      in if r < 1 / 2 then of_int f
         else if 1 / 2 < r then of_int (f + 1)
         else if even f then of_int f else of_int (f + 1))"

text \<open>\<^verbatim>\<open>.astype(int)\<close>: truncation towards zero.\<close>

definition astype_int :: "real \<Rightarrow> int" where
  "astype_int x = (if 0 \<le> x then \<lfloor>x\<rfloor> else \<lceil>x\<rceil>)"

text \<open>\<^verbatim>\<open>np.dot\<close> of two vectors.\<close>

definition dot :: "real list \<Rightarrow> real list \<Rightarrow> real" where
  "dot xs ys = sum_list (map2 (*) xs ys)"

definition Lattice :: "real \<Rightarrow> real \<Rightarrow> real \<Rightarrow> real \<Rightarrow> real \<Rightarrow> real \<Rightarrow> matrix \<Rightarrow> lattice" where
  "Lattice a b c alpha beta gamma m =
     \<lparr>lat_a = a, lat_b = b, lat_c = c, lat_alpha = alpha, lat_beta = beta, lat_gamma = gamma,
      baserot = m\<rparr>"

text \<open>
  \<^verbatim>\<open>structure.placeInLattice(new_lattice)\<close>: the structure gets the new lattice, and its
  atoms are recomputed from the old and the new lattice.
\<close>

definition placeInLattice ::
  "('at, 'd) externals \<Rightarrow> lattice \<Rightarrow> 'at Structure \<Rightarrow> 'at Structure" where
  "placeInLattice X new_lattice s =
     \<lparr>lattice = new_lattice, atoms = place_atoms X (lattice s) new_lattice (atoms s)\<rparr>"

text \<open>Lines 93 to 96: the six cell parameters of a lattice.\<close>

definition cell_parameters :: "lattice \<Rightarrow> cell" where
  "cell_parameters L = (lat_a L, lat_b L, lat_c L, lat_alpha L, lat_beta L, lat_gamma L)"

section \<open>The diffraction library generator\<close>

text \<open>
  Lines 100 to 107: the rotated lattice of one orientation (\<open>orientation'\<close> is the source's
  \<^verbatim>\<open>_orientation\<close>). \<^verbatim>\<open>_orientation[0]\<close>,
  \<^verbatim>\<open>[1]\<close> and \<^verbatim>\<open>[2]\<close> raise \<^verbatim>\<open>IndexError\<close> on an orientation with fewer than three
  angles.
\<close>

definition latt_rot :: "('at, 'd) externals \<Rightarrow> cell \<Rightarrow> orientation \<Rightarrow> error + lattice" where
  "latt_rot X cell orientation =
     (let orientation' = map deg2rad orientation
      in if length orientation' < 3 then Inl IndexError
         else
           let matrix = euler2mat X (orientation' ! 0) (orientation' ! 1) (orientation' ! 2)
           in case cell of (a, b, c, alpha, beta, gamma) \<Rightarrow>
                Inr (Lattice a b c alpha beta gamma matrix))"

text \<open>
  Lines 100 to 115 on the structure object: rotate, place the structure in the rotated
  lattice, simulate, calibrate. The result is the calibrated simulation, or the
  exception; the structure is returned as the statement left it.
\<close>

definition simulate_orientation ::
  "('at, 'd) externals \<Rightarrow> args \<Rightarrow> cell \<Rightarrow> orientation \<Rightarrow> 'at Structure
     \<Rightarrow> (error + 'd) \<times> 'at Structure" where
  "simulate_orientation X P cell orientation s =
     (case latt_rot X cell orientation of
        Inl err \<Rightarrow> (Inl err, s)
      | Inr L \<Rightarrow>
          (let s' = placeInLattice X L s
           in (case calculate_ed_data X s' (reciprocal_radius P) (with_direct_beam P) of
                 Inl e \<Rightarrow> (Inl (Raised e), s')
               | Inr data \<Rightarrow> (Inr (set_calibration X (calibration P) data), s'))))"

text \<open>Lines 117 and 118: the pixel coordinates of the calibrated coordinates.\<close>

definition pixel_coordinates :: "(real \<times> real \<times> real list) list \<Rightarrow> real \<times> real \<Rightarrow> (int \<times> int) list" where
  "pixel_coordinates cc hs =
     map (\<lambda>(x, y, rest). (astype_int (rint (x + fst hs)), astype_int (rint (y + snd hs)))) cc"

text \<open>Lines 123 to 126: the record of a simulation.\<close>

definition make_record :: "('at, 'd) externals \<Rightarrow> args \<Rightarrow> 'd \<Rightarrow> 'd sim_record" where
  "make_record X P data =
     (let pattern_intensities = get_intensities X data
      in \<lparr>Sim = data, intensities = pattern_intensities,
          pixel_coords = pixel_coordinates (calibrated_coordinates X data) (half_shape P),
          pattern_norm = sqrt (dot pattern_intensities pattern_intensities)\<rparr>)"

text \<open>
  Lines 100 to 127: the body of the loop over the orientations of one phase. The
  dictionary of the phase is the object stored under the phase key, so the library sees
  every later insertion; in the model the library entry is rewritten with each
  insertion.
\<close>

definition orientation_body ::
  "('at, 'd) externals \<Rightarrow> args \<Rightarrow> cell \<Rightarrow> addr \<Rightarrow> 'k \<Rightarrow> orientation
     \<Rightarrow> 'd phase_library \<times> ('k \<rightharpoonup> 'd phase_library) \<Rightarrow> 'at store
     \<Rightarrow> (error + 'd phase_library \<times> ('k \<rightharpoonup> 'd phase_library)) \<times> 'at store" where
  "orientation_body X P cell structure key orientation acc \<sigma> =
     (case acc of (phase_diffraction_library, diffraction_library) \<Rightarrow>
       (case simulate_orientation X P cell orientation (\<sigma> structure) of
          (Inl err, s') \<Rightarrow> (Inl err, \<sigma>(structure := s'))
        | (Inr data, s') \<Rightarrow>
            if length (get_intensities X data) > 0 then
              let phase_diffraction_library' =
                    phase_diffraction_library(orientation \<mapsto> make_record X P data)
              in (Inr (phase_diffraction_library',
                       diffraction_library(key \<mapsto> phase_diffraction_library')),
                  \<sigma>(structure := s'))
            else (Inr (phase_diffraction_library, diffraction_library), \<sigma>(structure := s'))))"

fun orientation_loop ::
  "('at, 'd) externals \<Rightarrow> args \<Rightarrow> cell \<Rightarrow> addr \<Rightarrow> 'k \<Rightarrow> orientation list
     \<Rightarrow> 'd phase_library \<times> ('k \<rightharpoonup> 'd phase_library) \<Rightarrow> 'at store
     \<Rightarrow> (error + 'd phase_library \<times> ('k \<rightharpoonup> 'd phase_library)) \<times> 'at store" where
  "orientation_loop X P cell structure key [] acc \<sigma> = (Inr acc, \<sigma>)"
| "orientation_loop X P cell structure key (orientation # orientations) acc \<sigma> =
     (case orientation_body X P cell structure key orientation acc \<sigma> of
        (Inl err, \<sigma>') \<Rightarrow> (Inl err, \<sigma>')
      | (Inr acc', \<sigma>') \<Rightarrow> orientation_loop X P cell structure key orientations acc' \<sigma>')"

text \<open>
  Lines 91 to 127: the body of the loop over the phases. The cell parameters are read
  from the structure before the loop over its orientations.
\<close>

definition phase_body ::
  "('at, 'd) externals \<Rightarrow> args \<Rightarrow> 'k \<times> addr \<times> orientation list
     \<Rightarrow> ('k \<rightharpoonup> 'd phase_library) \<Rightarrow> 'at store
     \<Rightarrow> (error + ('k \<rightharpoonup> 'd phase_library)) \<times> 'at store" where
  "phase_body X P item diffraction_library \<sigma> =
     (case item of (key, structure, orientations) \<Rightarrow>
        (let cell = cell_parameters (lattice (\<sigma> structure))
         in (case orientation_loop X P cell structure key orientations
                   (Map.empty, diffraction_library) \<sigma> of
               (Inl err, \<sigma>') \<Rightarrow> (Inl err, \<sigma>')
             | (Inr (phase_diffraction_library, diffraction_library'), \<sigma>') \<Rightarrow>
                 (Inr diffraction_library', \<sigma>'))))"

fun phase_loop ::
  "('at, 'd) externals \<Rightarrow> args \<Rightarrow> ('k \<times> addr \<times> orientation list) list
     \<Rightarrow> ('k \<rightharpoonup> 'd phase_library) \<Rightarrow> 'at store
     \<Rightarrow> (error + ('k \<rightharpoonup> 'd phase_library)) \<times> 'at store" where
  "phase_loop X P [] diffraction_library \<sigma> = (Inr diffraction_library, \<sigma>)"
| "phase_loop X P (item # rest) diffraction_library \<sigma> =
     (case phase_body X P item diffraction_library \<sigma> of
        (Inl err, \<sigma>') \<Rightarrow> (Inl err, \<sigma>')
      | (Inr diffraction_library', \<sigma>') \<Rightarrow> phase_loop X P rest diffraction_library' \<sigma>')"

text \<open>
  Lines 84 to 133. After line 88 the name \<^verbatim>\<open>structure_library\<close> is bound to the
  \<^verbatim>\<open>struct_lib\<close> object, and lines 130 and 131 read the attributes \<^verbatim>\<open>indentifiers\<close> and
  \<^verbatim>\<open>structures\<close> from that object.
\<close>

definition get_diffraction_library ::
  "('at, 'd) externals \<Rightarrow> ('k, 'x) StructureLibrary \<Rightarrow> real \<Rightarrow> real \<Rightarrow> real \<times> real \<Rightarrow> bool
     \<Rightarrow> 'at store \<Rightarrow> (error + ('k, 'd phase_library, 'x) library) \<times> 'at store" where
  "get_diffraction_library X structure_library0 calibration0 reciprocal_radius0 half_shape0
       with_direct_beam0 \<sigma> =
     (let P = call_args calibration0 reciprocal_radius0 half_shape0 with_direct_beam0;
          structure_library = struct_lib structure_library0
      in case phase_loop X P (items structure_library) Map.empty \<sigma> of
           (Inl err, \<sigma>') \<Rightarrow> (Inl err, \<sigma>')
         | (Inr diffraction_library, \<sigma>') \<Rightarrow>
             (case getattr structure_library ''indentifiers'' of
                Inl err \<Rightarrow> (Inl err, \<sigma>')
              | Inr ids \<Rightarrow>
                  (case getattr structure_library ''structures'' of
                     Inl err \<Rightarrow> (Inl err, \<sigma>')
                   | Inr strs \<Rightarrow>
                       (Inr \<lparr>lib_dict = diffraction_library, identifiers = ids,
                             structures = strs\<rparr>, \<sigma>'))))"

text \<open>
  The simulations of a run, in the order in which they are made: the orientation, the
  structure as it was passed to the calculator, and the calibrated simulation. The list
  is read off \<open>simulate_orientation\<close> along the same recursion as the loops and ends
  where the loops end.
\<close>

fun orientation_log ::
  "('at, 'd) externals \<Rightarrow> args \<Rightarrow> cell \<Rightarrow> orientation list \<Rightarrow> 'at Structure
     \<Rightarrow> (orientation \<times> 'at Structure \<times> 'd) list" where
  "orientation_log X P cell [] s = []"
| "orientation_log X P cell (orientation # orientations) s =
     (case simulate_orientation X P cell orientation s of
        (Inl err, s') \<Rightarrow> []
      | (Inr data, s') \<Rightarrow> (orientation, s', data) # orientation_log X P cell orientations s')"

fun ed_log ::
  "('at, 'd) externals \<Rightarrow> args \<Rightarrow> ('k \<times> addr \<times> orientation list) list
     \<Rightarrow> ('k \<rightharpoonup> 'd phase_library) \<Rightarrow> 'at store
     \<Rightarrow> ('k \<times> orientation \<times> 'at Structure \<times> 'd) list" where
  "ed_log X P [] diffraction_library \<sigma> = []"
| "ed_log X P ((key, structure, orientations) # rest) diffraction_library \<sigma> =
     map (Pair key)
       (orientation_log X P (cell_parameters (lattice (\<sigma> structure))) orientations (\<sigma> structure))
     @ (case phase_body X P (key, structure, orientations) diffraction_library \<sigma> of
          (Inl err, \<sigma>') \<Rightarrow> []
        | (Inr diffraction_library', \<sigma>') \<Rightarrow> ed_log X P rest diffraction_library' \<sigma>')"

text \<open>The simulations of a call of \<^verbatim>\<open>get_diffraction_library\<close>.\<close>

definition run_log ::
  "('at, 'd) externals \<Rightarrow> ('k, 'x) StructureLibrary \<Rightarrow> real \<Rightarrow> real \<Rightarrow> real \<times> real \<Rightarrow> bool
     \<Rightarrow> 'at store \<Rightarrow> ('k \<times> orientation \<times> 'at Structure \<times> 'd) list" where
  "run_log X structure_library0 calibration0 reciprocal_radius0 half_shape0 with_direct_beam0 \<sigma> =
     ed_log X (call_args calibration0 reciprocal_radius0 half_shape0 with_direct_beam0)
       (items (struct_lib structure_library0)) (Map.empty :: 'k \<rightharpoonup> 'd phase_library) \<sigma>"

text \<open>The simulations of one phase, and those among them that have reflections.\<close>

definition phase_log ::
  "'k \<Rightarrow> ('k \<times> orientation \<times> 'at Structure \<times> 'd) list \<Rightarrow> (orientation \<times> 'at Structure \<times> 'd) list" where
  "phase_log key lg = map snd (filter (\<lambda>entry. fst entry = key) lg)"

definition retained ::
  "('at, 'd) externals \<Rightarrow> (orientation \<times> 'at Structure \<times> 'd) list
     \<Rightarrow> (orientation \<times> 'at Structure \<times> 'd) list" where
  "retained X lg = filter (\<lambda>(orientation, s, data). get_intensities X data \<noteq> []) lg"

text \<open>The records of a list of simulations, under the orientations that produced them.\<close>

definition records ::
  "('at, 'd) externals \<Rightarrow> args \<Rightarrow> (orientation \<times> 'at Structure \<times> 'd) list
     \<Rightarrow> (orientation \<times> 'd sim_record) list" where
  "records X P lg = map (\<lambda>(orientation, s, data). (orientation, make_record X P data)) lg"

text \<open>
  A record as the loop builds it: the record of a calibrated simulation that the
  calculator returned for some structure and that has reflections.
\<close>

definition produced :: "('at, 'd) externals \<Rightarrow> args \<Rightarrow> 'd sim_record \<Rightarrow> bool" where
  "produced X P r \<longleftrightarrow>
     (\<exists>s data0.
        calculate_ed_data X s (reciprocal_radius P) (with_direct_beam P) = Inr data0 \<and>
        r = make_record X P (set_calibration X (calibration P) data0) \<and>
        get_intensities X (set_calibration X (calibration P) data0) \<noteq> [])"

text \<open>
  Two structures that have the same cell parameters and are the same structure once
  placed in a lattice.
\<close>

definition same_placement :: "('at, 'd) externals \<Rightarrow> 'at Structure \<Rightarrow> 'at Structure \<Rightarrow> bool" where
  "same_placement X s t \<longleftrightarrow>
     cell_parameters (lattice s) = cell_parameters (lattice t) \<and>
     (\<forall>L. placeInLattice X L s = placeInLattice X L t)"

text \<open>
  The contract of \<^verbatim>\<open>placeInLattice\<close> under which a structure does not depend on the
  lattices it was placed in before: placing a structure in a lattice and then in a second
  one is placing it in the second one.
\<close>

definition placement_stable :: "('at, 'd) externals \<Rightarrow> bool" where
  "placement_stable X \<longleftrightarrow>
     (\<forall>L0 L1 L2 ats. place_atoms X L1 L2 (place_atoms X L0 L1 ats) = place_atoms X L0 L2 ats)"

section \<open>The vector library generator\<close>

type_synonym hkl = "int \<times> int \<times> int"

type_synonym vec3 = "real \<times> real \<times> real"

text \<open>An entry \<^verbatim>\<open>[hkl1, hkl2, len1, len2, angle]\<close> of a phase's array.\<close>

type_synonym vector_pair = "hkl \<times> hkl \<times> real \<times> real \<times> real"

text \<open>
  The collaborators of \<^verbatim>\<open>get_vector_library\<close>, none of them among the source files, are
  parameters: diffpy's \<^verbatim>\<open>Lattice.reciprocal\<close>,
  \<^verbatim>\<open>pyxem.utils.sim_utils.get_points_in_sphere\<close>, which returns the indices, the
  coordinates and the distances of the points, and
  \<^verbatim>\<open>pyxem.utils.vector_utils.get_angle_cartesian\<close>.
\<close>

record geometry =
  reciprocal :: "lattice \<Rightarrow> lattice"
  get_points_in_sphere :: "lattice \<Rightarrow> real \<Rightarrow> hkl list \<times> vec3 list \<times> real list"
  get_angle_cartesian :: "vec3 \<Rightarrow> vec3 \<Rightarrow> real"

text \<open>\<^verbatim>\<open>itertools.combinations(iterable, 2)\<close> and \<^verbatim>\<open>np.arange(n)\<close>.\<close>

fun combinations2 :: "'a list \<Rightarrow> ('a \<times> 'a) list" where
  "combinations2 [] = []"
| "combinations2 (x # xs) = map (Pair x) xs @ combinations2 xs"

definition arange :: "nat \<Rightarrow> nat list" where
  "arange n = [0..<n]"

text \<open>Indexing a sequence with a non-negative index.\<close>

definition getitem :: "'a list \<Rightarrow> nat \<Rightarrow> error + 'a" where
  "getitem xs i = (if i < length xs then Inr (xs ! i) else Inl IndexError)"

text \<open>Lines 187 to 196: the body of the loop over the index pairs.\<close>

definition pair_body ::
  "geometry \<Rightarrow> hkl list \<Rightarrow> vec3 list \<Rightarrow> real list \<Rightarrow> nat \<times> nat \<Rightarrow> vector_pair list
     \<Rightarrow> error + vector_pair list" where
  "pair_body G indices coordinates distances comb phase_vectors =
     (case comb of (i, j) \<Rightarrow>
       (case getitem indices i of Inl err \<Rightarrow> Inl err | Inr hkl1 \<Rightarrow>
       (case getitem indices j of Inl err \<Rightarrow> Inl err | Inr hkl2 \<Rightarrow>
       (case getitem distances i of Inl err \<Rightarrow> Inl err | Inr len1 \<Rightarrow>
       (case getitem distances j of Inl err \<Rightarrow> Inl err | Inr len2 \<Rightarrow>
       (case getitem coordinates i of Inl err \<Rightarrow> Inl err | Inr ci \<Rightarrow>
       (case getitem coordinates j of Inl err \<Rightarrow> Inl err | Inr cj \<Rightarrow>
          Inr (phase_vectors @ [(hkl1, hkl2, len1, len2, get_angle_cartesian G ci cj)]))))))))"

fun pair_loop ::
  "geometry \<Rightarrow> hkl list \<Rightarrow> vec3 list \<Rightarrow> real list \<Rightarrow> (nat \<times> nat) list \<Rightarrow> vector_pair list
     \<Rightarrow> error + vector_pair list" where
  "pair_loop G indices coordinates distances [] phase_vectors = Inr phase_vectors"
| "pair_loop G indices coordinates distances (comb # combs) phase_vectors =
     (case pair_body G indices coordinates distances comb phase_vectors of
        Inl err \<Rightarrow> Inl err
      | Inr phase_vectors' \<Rightarrow> pair_loop G indices coordinates distances combs phase_vectors')"

text \<open>Lines 175 to 197: the body of the loop over the phases.\<close>

definition vector_phase_body ::
  "geometry \<Rightarrow> real \<Rightarrow> 'at store \<Rightarrow> 'k \<times> addr \<times> orientation list \<Rightarrow> ('k \<rightharpoonup> vector_pair list)
     \<Rightarrow> error + ('k \<rightharpoonup> vector_pair list)" where
  "vector_phase_body G reciprocal_radius0 \<sigma> item vector_library =
     (case item of (key, structure, orientations) \<Rightarrow>
        (let latt = lattice (\<sigma> structure);
             recip_latt = reciprocal G latt
         in (case get_points_in_sphere G recip_latt reciprocal_radius0 of
               (indices, coordinates, distances) \<Rightarrow>
                 (case pair_loop G indices coordinates distances
                         (combinations2 (arange (length indices))) [] of
                    Inl err \<Rightarrow> Inl err
                  | Inr phase_vectors \<Rightarrow> Inr (vector_library(key \<mapsto> phase_vectors))))))"

fun vector_phase_loop ::
  "geometry \<Rightarrow> real \<Rightarrow> 'at store \<Rightarrow> ('k \<times> addr \<times> orientation list) list
     \<Rightarrow> ('k \<rightharpoonup> vector_pair list) \<Rightarrow> error + ('k \<rightharpoonup> vector_pair list)" where
  "vector_phase_loop G reciprocal_radius0 \<sigma> [] vector_library = Inr vector_library"
| "vector_phase_loop G reciprocal_radius0 \<sigma> (item # rest) vector_library =
     (case vector_phase_body G reciprocal_radius0 \<sigma> item vector_library of
        Inl err \<Rightarrow> Inl err
      | Inr vector_library' \<Rightarrow> vector_phase_loop G reciprocal_radius0 \<sigma> rest vector_library')"

text \<open>
  Lines 169 to 203; \<open>self_structures\<close> is \<^verbatim>\<open>self.structures\<close>, the structure library the
  generator was built with. No structure is changed.
\<close>

definition get_vector_library ::
  "geometry \<Rightarrow> ('k, 'x) StructureLibrary \<Rightarrow> real \<Rightarrow> 'at store
     \<Rightarrow> error + ('k, vector_pair list, 'x) library" where
  "get_vector_library G self_structures reciprocal_radius0 \<sigma> =
     (let structure_library = struct_lib self_structures
      in case vector_phase_loop G reciprocal_radius0 \<sigma> (items structure_library) Map.empty of
           Inl err \<Rightarrow> Inl err
         | Inr vector_library \<Rightarrow>
             (case getattr structure_library ''indentifiers'' of
                Inl err \<Rightarrow> Inl err
              | Inr ids \<Rightarrow>
                  (case getattr structure_library ''structures'' of
                     Inl err \<Rightarrow> Inl err
                   | Inr strs \<Rightarrow>
                       Inr \<lparr>lib_dict = vector_library, identifiers = ids, structures = strs\<rparr>)))"

text \<open>The record the loop builds for the index pair \<open>(i, j)\<close>.\<close>

definition vector_pair_of ::
  "geometry \<Rightarrow> hkl list \<Rightarrow> vec3 list \<Rightarrow> real list \<Rightarrow> nat \<times> nat \<Rightarrow> vector_pair" where
  "vector_pair_of G indices coordinates distances comb =
     (case comb of (i, j) \<Rightarrow>
        (indices ! i, indices ! j, distances ! i, distances ! j,
         get_angle_cartesian G (coordinates ! i) (coordinates ! j)))"

text \<open>The index pairs \<open>i < j\<close> below \<open>n\<close>, in lexicographic order.\<close>

definition index_pairs :: "nat \<Rightarrow> (nat \<times> nat) list" where
  "index_pairs n = concat (map (\<lambda>i. map (Pair i) [Suc i..<n]) [0..<n])"

text \<open>The lexicographic order of index pairs.\<close>

definition lex_less :: "nat \<times> nat \<Rightarrow> nat \<times> nat \<Rightarrow> bool" where
  "lex_less p q \<longleftrightarrow> fst p < fst q \<or> (fst p = fst q \<and> snd p < snd q)"

text \<open>
  The contract of \<^verbatim>\<open>get_points_in_sphere\<close> for the structure at an address: the three
  sequences have the same length.
\<close>

definition parallel_points :: "geometry \<Rightarrow> real \<Rightarrow> 'at store \<Rightarrow> addr \<Rightarrow> bool" where
  "parallel_points G rr \<sigma> addr \<longleftrightarrow>
     (case get_points_in_sphere G (reciprocal G (lattice (\<sigma> addr))) rr of
        (I, C, D) \<Rightarrow> length C = length I \<and> length D = length I)"

text \<open>
  An input on which no orientation is too short and a calculator that does not raise.
\<close>

definition well_formed_orientations :: "('k \<times> addr \<times> orientation list) list \<Rightarrow> bool" where
  "well_formed_orientations its \<longleftrightarrow>
     (\<forall>item \<in> set its. \<forall>orientation \<in> set (snd (snd item)). 3 \<le> length orientation)"

definition never_raises :: "('at, 'd) externals \<Rightarrow> args \<Rightarrow> bool" where
  "never_raises X P \<longleftrightarrow>
     (\<forall>s. \<exists>data. calculate_ed_data X s (reciprocal_radius P) (with_direct_beam P) = Inr data)"

text \<open>Every record of a phase dictionary, and of a library, is one the loop builds.\<close>

definition inv_pdl :: "('at, 'd) externals \<Rightarrow> args \<Rightarrow> 'd phase_library \<Rightarrow> bool" where
  "inv_pdl X P pdl \<longleftrightarrow> (\<forall>orientation r. pdl orientation = Some r \<longrightarrow> produced X P r)"

definition inv_lib :: "('at, 'd) externals \<Rightarrow> args \<Rightarrow> ('k \<rightharpoonup> 'd phase_library) \<Rightarrow> bool" where
  "inv_lib X P lib \<longleftrightarrow> (\<forall>key sub. lib key = Some sub \<longrightarrow> inv_pdl X P sub)"

section \<open>A concrete setting\<close>

text \<open>
  Collaborators and inputs on which the statements below are evaluated. The rotation
  matrix is that of \<open>Rz(ai) Rx(aj) Rz(ak)\<close>. The calculator raises for a lattice turned
  upside down, finds no reflection for a lattice turned by half a turn about \<open>z\<close>, and
  otherwise returns the direct beam and one reflection at \<open>1 / a\<close>, whose intensity
  depends on the atoms. A simulation is a triple of calibration, coordinates and
  intensities.
\<close>

definition rzxz :: "real \<Rightarrow> real \<Rightarrow> real \<Rightarrow> matrix" where
  "rzxz ai aj ak =
     [[cos ai * cos ak - sin ai * cos aj * sin ak, - cos ai * sin ak - sin ai * cos aj * cos ak,
       sin ai * sin aj],
      [sin ai * cos ak + cos ai * cos aj * sin ak, - sin ai * sin ak + cos ai * cos aj * cos ak,
       - cos ai * sin aj],
      [sin aj * sin ak, sin aj * cos ak, cos aj]]"

type_synonym demo_data = "real \<times> (real \<times> real \<times> real) list \<times> real list"

definition demo_calculate :: "nat Structure \<Rightarrow> real \<Rightarrow> bool \<Rightarrow> string + demo_data" where
  "demo_calculate s rr wdb =
     (let m = baserot (lattice s)
      in if m ! 2 ! 2 = - 1 then Inl ''no convergence''
         else if m ! 0 ! 0 = - 1 then Inr (1, [], [])
         else Inr (1, [(0, 0, 0), (1 / lat_a (lattice s), 0, 0)], [1, 3 + of_nat (atoms s)]))"

text \<open>Placing a structure leaves the atoms as they are.\<close>

definition demo_X :: "(nat, demo_data) externals" where
  "demo_X =
     \<lparr>euler2mat = rzxz,
      place_atoms = (\<lambda>L0 L1 n. n),
      calculate_ed_data = demo_calculate,
      set_calibration = (\<lambda>c (c0, coords, ints). (c, coords, ints)),
      get_intensities = (\<lambda>(c, coords, ints). ints),
      calibrated_coordinates =
        (\<lambda>(c, coords, ints). map (\<lambda>(x, y, z). (x / c, y / c, [z / c])) coords)\<rparr>"

text \<open>Placing a structure changes the atoms: they count the placements.\<close>

definition demo_X_counting :: "(nat, demo_data) externals" where
  "demo_X_counting = demo_X\<lparr>place_atoms := (\<lambda>L0 L1 n. Suc n)\<rparr>"

definition demo_args :: args where
  "demo_args = call_args (1 / 100) 1 (72, 72) True"

definition demo_structure :: "nat Structure" where
  "demo_structure =
     \<lparr>lattice = Lattice 3 3 3 90 90 90 [[1, 0, 0], [0, 1, 0], [0, 0, 1]], atoms = 0\<rparr>"

definition demo_store :: "nat store" where
  "demo_store = (\<lambda>addr. demo_structure)"

text \<open>
  Two phases with a structure each. The first has the same orientation twice, and one
  orientation without reflections; the second has no orientation with reflections. The
  \<^verbatim>\<open>struct_lib\<close> object has the two attributes that the generators read.
\<close>

definition demo_library :: "(string, string list) StructureLibrary" where
  "demo_library =
     \<lparr>struct_lib =
        \<lparr>items = [(''A'', 0, [[0, 0, 0], [180, 0, 0], [0, 0, 0]]), (''B'', 1, [[180, 0, 0]])],
         attrs = [''indentifiers'' \<mapsto> [''A'', ''B''], ''structures'' \<mapsto> [''s0'', ''s1'']]\<rparr>,
      attributes = [''identifiers'' \<mapsto> [''A'', ''B''], ''structures'' \<mapsto> [''s0'', ''s1'']]\<rparr>"

definition demo_data_000 :: "nat \<Rightarrow> demo_data" where
  "demo_data_000 n = (1 / 100, [(0, 0, 0), (1 / 3, 0, 0)], [1, 3 + of_nat n])"

definition demo_record :: "nat \<Rightarrow> demo_data sim_record" where
  "demo_record n =
     \<lparr>Sim = demo_data_000 n, intensities = [1, 3 + of_nat n],
      pixel_coords = [(72, 72), (105, 72)],
      pattern_norm = sqrt (dot [1, 3 + of_nat n] [1, 3 + of_nat n])\<rparr>"

definition demo_placed :: "matrix \<Rightarrow> nat \<Rightarrow> nat Structure" where
  "demo_placed m n = \<lparr>lattice = Lattice 3 3 3 90 90 90 m, atoms = n\<rparr>"

definition demo_result :: "(string, demo_data phase_library, string list) library" where
  "demo_result =
     \<lparr>lib_dict = [''A'' \<mapsto> [[0, 0, 0] \<mapsto> demo_record 0]],
      identifiers = [''A'', ''B''], structures = [''s0'', ''s1'']\<rparr>"

definition demo_store_after :: "nat store" where
  "demo_store_after = demo_store
     (0 := demo_placed [[1, 0, 0], [0, 1, 0], [0, 0, 1]] 0,
      1 := demo_placed [[- 1, 0, 0], [0, - 1, 0], [0, 0, 1]] 0)"

definition demo_result_counting :: "(string, demo_data phase_library, string list) library" where
  "demo_result_counting =
     \<lparr>lib_dict = [''A'' \<mapsto> [[0, 0, 0] \<mapsto> demo_record 3]],
      identifiers = [''A'', ''B''], structures = [''s0'', ''s1'']\<rparr>"

definition demo_store_counting :: "nat store" where
  "demo_store_counting = demo_store
     (0 := demo_placed [[1, 0, 0], [0, 1, 0], [0, 0, 1]] 3,
      1 := demo_placed [[- 1, 0, 0], [0, - 1, 0], [0, 0, 1]] 1)"

text \<open>Two phases that refer to the same structure object.\<close>

definition demo_shared :: "(string, string list) StructureLibrary" where
  "demo_shared =
     \<lparr>struct_lib =
        \<lparr>items = [(''A'', 0, [[0, 0, 0]]), (''B'', 0, [[180, 0, 0]])],
         attrs = [''indentifiers'' \<mapsto> [''A'', ''B''], ''structures'' \<mapsto> [''s0'', ''s0'']]\<rparr>,
      attributes = [''identifiers'' \<mapsto> [''A'', ''B''], ''structures'' \<mapsto> [''s0'', ''s0'']]\<rparr>"

definition demo_shared_store_after :: "nat store" where
  "demo_shared_store_after = demo_store (0 := demo_placed [[- 1, 0, 0], [0, - 1, 0], [0, 0, 1]] 0)"

definition demo_shared_result :: "(string, demo_data phase_library, string list) library" where
  "demo_shared_result =
     \<lparr>lib_dict = [''A'' \<mapsto> [[0, 0, 0] \<mapsto> demo_record 0]],
      identifiers = [''A'', ''B''], structures = [''s0'', ''s0'']\<rparr>"

text \<open>A library on which the calculator raises at the second orientation of the second phase.\<close>

definition demo_failing :: "(string, string list) StructureLibrary" where
  "demo_failing =
     \<lparr>struct_lib =
        \<lparr>items = [(''A'', 0, [[0, 0, 0]]), (''B'', 1, [[0, 0, 0], [0, 180, 0], [180, 0, 0]])],
         attrs = [''indentifiers'' \<mapsto> [''A'', ''B''], ''structures'' \<mapsto> [''s0'', ''s1'']]\<rparr>,
      attributes = [''identifiers'' \<mapsto> [''A'', ''B''], ''structures'' \<mapsto> [''s0'', ''s1'']]\<rparr>"

text \<open>The state of that run when the calculator raises.\<close>

definition demo_fail_lib1 :: "string \<rightharpoonup> demo_data phase_library" where
  "demo_fail_lib1 = [''A'' \<mapsto> [[0, 0, 0] \<mapsto> demo_record 0]]"

definition demo_fail_store1 :: "nat store" where
  "demo_fail_store1 = demo_store (0 := demo_placed [[1, 0, 0], [0, 1, 0], [0, 0, 1]] 0)"

definition demo_fail_acc :: "demo_data phase_library \<times> (string \<rightharpoonup> demo_data phase_library)" where
  "demo_fail_acc =
     ([[0, 0, 0] \<mapsto> demo_record 0], demo_fail_lib1(''B'' \<mapsto> [[0, 0, 0] \<mapsto> demo_record 0]))"

definition demo_fail_store2 :: "nat store" where
  "demo_fail_store2 = demo_fail_store1 (1 := demo_placed [[1, 0, 0], [0, 1, 0], [0, 0, 1]] 0)"

definition demo_fail_lattice :: lattice where
  "demo_fail_lattice = Lattice 3 3 3 90 90 90 [[1, 0, 0], [0, - 1, 0], [0, 0, - 1]]"

text \<open>
  Points in a sphere for a cubic cell: the origin and, when they are within the radius,
  the two points \<open>(1, 0, 0)\<close> and \<open>(- 1, 0, 0)\<close>. The angle is that of points on one axis.
\<close>

definition demo_G :: geometry where
  "demo_G =
     \<lparr>reciprocal = (\<lambda>L. Lattice (1 / lat_a L) (1 / lat_b L) (1 / lat_c L) 90 90 90 (baserot L)),
      get_points_in_sphere =
        (\<lambda>L r. if lat_a L \<le> r
               then ([(0, 0, 0), (1, 0, 0), (- 1, 0, 0)],
                     [(0, 0, 0), (lat_a L, 0, 0), (- lat_a L, 0, 0)],
                     [0, lat_a L, lat_a L])
               else ([(0, 0, 0)], [(0, 0, 0)], [0])),
      get_angle_cartesian = (\<lambda>u v. if u = (0, 0, 0) \<or> v = (0, 0, 0) \<or> u = v then 0 else pi)\<rparr>"

definition demo_vector_store :: "nat store" where
  "demo_vector_store = demo_store
     (1 := \<lparr>lattice = Lattice (1 / 2) (1 / 2) (1 / 2) 90 90 90 [[1, 0, 0], [0, 1, 0], [0, 0, 1]],
            atoms = 0\<rparr>)"

definition demo_vector_result :: "(string, vector_pair list, string list) library" where
  "demo_vector_result =
     \<lparr>lib_dict =
        [''A'' \<mapsto> [((0, 0, 0), (1, 0, 0), 0, 1 / 3, 0),
                    ((0, 0, 0), (- 1, 0, 0), 0, 1 / 3, 0),
                    ((1, 0, 0), (- 1, 0, 0), 1 / 3, 1 / 3, pi)],
         ''B'' \<mapsto> []],
      identifiers = [''A'', ''B''], structures = [''s0'', ''s1'']\<rparr>"

text \<open>
  The same library as the class \<^verbatim>\<open>StructureLibrary\<close> is described: the attributes are
  those of the object itself, and \<^verbatim>\<open>struct_lib\<close> is a plain dictionary.
\<close>

definition demo_plain :: "(string, string list) StructureLibrary" where
  "demo_plain = demo_library\<lparr>struct_lib := (struct_lib demo_library)\<lparr>attrs := Map.empty\<rparr>\<rparr>"

text \<open>
  The same library with a \<^verbatim>\<open>struct_lib\<close> object whose attributes are not those of the
  \<^verbatim>\<open>StructureLibrary\<close> object.
\<close>

definition demo_inner :: "(string, string list) StructureLibrary" where
  "demo_inner =
     demo_library\<lparr>struct_lib := (struct_lib demo_library)
       \<lparr>attrs := [''indentifiers'' \<mapsto> [''X''], ''structures'' \<mapsto> [''sX'']]\<rparr>\<rparr>"

definition demo_inner_result :: "(string, demo_data phase_library, string list) library" where
  "demo_inner_result = demo_result\<lparr>identifiers := [''X''], structures := [''sX'']\<rparr>"

text \<open>
  A calculator that finds a reflection only in a structure that was placed once, with
  atoms that count the placements; a phase with the same orientation twice.
\<close>

definition demo_X_fading :: "(nat, demo_data) externals" where
  "demo_X_fading =
     demo_X_counting\<lparr>calculate_ed_data :=
       (\<lambda>s rr wdb. if atoms s < 2 then Inr (1, [(0, 0, 0)], [5]) else Inr (1, [], []))\<rparr>"

definition demo_repeated :: "(string, string list) StructureLibrary" where
  "demo_repeated =
     \<lparr>struct_lib =
        \<lparr>items = [(''A'', 0, [[0, 0, 0], [0, 0, 0]])],
         attrs = [''indentifiers'' \<mapsto> [''A''], ''structures'' \<mapsto> [''s0'']]\<rparr>,
      attributes = [''identifiers'' \<mapsto> [''A''], ''structures'' \<mapsto> [''s0'']]\<rparr>"

definition demo_data_5 :: demo_data where
  "demo_data_5 = (1 / 100, [(0, 0, 0)], [5])"

definition demo_record_5 :: "demo_data sim_record" where
  "demo_record_5 =
     \<lparr>Sim = demo_data_5, intensities = [5], pixel_coords = [(72, 72)],
      pattern_norm = sqrt (dot [5] [5])\<rparr>"

definition demo_repeated_result :: "(string, demo_data phase_library, string list) library" where
  "demo_repeated_result =
     \<lparr>lib_dict = [''A'' \<mapsto> [[0, 0, 0] \<mapsto> demo_record_5]],
      identifiers = [''A''], structures = [''s0'']\<rparr>"

definition demo_repeated_store_after :: "nat store" where
  "demo_repeated_store_after = demo_store (0 := demo_placed [[1, 0, 0], [0, 1, 0], [0, 0, 1]] 2)"

text \<open>The outcome of a second call with the atoms that count the placements.\<close>

definition demo_result_recounting :: "(string, demo_data phase_library, string list) library" where
  "demo_result_recounting =
     \<lparr>lib_dict = [''A'' \<mapsto> [[0, 0, 0] \<mapsto> demo_record 6]],
      identifiers = [''A'', ''B''], structures = [''s0'', ''s1'']\<rparr>"

definition demo_store_recounting :: "nat store" where
  "demo_store_recounting = demo_store
     (0 := demo_placed [[1, 0, 0], [0, 1, 0], [0, 0, 1]] 6,
      1 := demo_placed [[- 1, 0, 0], [0, - 1, 0], [0, 0, 1]] 2)"

text \<open>
  Collaborators under which placing a structure changes the atoms without depending on
  earlier placements: the atoms are kept with the base rotation of the lattice they are
  expressed in, and the calculator looks at the atoms.
\<close>

definition demo_X_basis :: "(matrix, demo_data) externals" where
  "demo_X_basis =
     \<lparr>euler2mat = rzxz,
      place_atoms = (\<lambda>L0 L1 m. baserot L1),
      calculate_ed_data =
        (\<lambda>s rr wdb. if atoms s ! 0 ! 0 = - 1 then Inr (1, [], [])
                    else Inr (1, [(0, 0, 0), (1 / lat_a (lattice s), 0, 0)], [1, 3])),
      set_calibration = (\<lambda>c (c0, coords, ints). (c, coords, ints)),
      get_intensities = (\<lambda>(c, coords, ints). ints),
      calibrated_coordinates =
        (\<lambda>(c, coords, ints). map (\<lambda>(x, y, z). (x / c, y / c, [z / c])) coords)\<rparr>"

definition demo_basis_placed :: "matrix \<Rightarrow> matrix \<Rightarrow> matrix Structure" where
  "demo_basis_placed m ats = \<lparr>lattice = Lattice 3 3 3 90 90 90 m, atoms = ats\<rparr>"

definition demo_basis_store :: "matrix store" where
  "demo_basis_store = (\<lambda>addr. demo_basis_placed [[1, 0, 0], [0, 1, 0], [0, 0, 1]] [])"

definition demo_basis_store_after :: "matrix store" where
  "demo_basis_store_after = demo_basis_store
     (0 := demo_basis_placed [[1, 0, 0], [0, 1, 0], [0, 0, 1]] [[1, 0, 0], [0, 1, 0], [0, 0, 1]],
      1 := demo_basis_placed [[- 1, 0, 0], [0, - 1, 0], [0, 0, 1]] [[- 1, 0, 0], [0, - 1, 0], [0, 0, 1]])"

section \<open>Lemmas about the vector library generator\<close>

lemma getattr_Inr: "(getattr obj name = Inr v) \<longleftrightarrow> attrs obj name = Some v"
  by (simp add: getattr_def split: option.splits)

lemma get_vector_library_Inr:
  "get_vector_library G SL rr \<sigma> = Inr vlib \<Longrightarrow>
     vector_phase_loop G rr \<sigma> (items (struct_lib SL)) Map.empty = Inr (lib_dict vlib) \<and>
          attrs (struct_lib SL) ''indentifiers'' = Some (identifiers vlib) \<and>
          attrs (struct_lib SL) ''structures'' = Some (structures vlib)"
  by (auto simp: get_vector_library_def Let_def getattr_def split: sum.splits option.splits)

lemma get_vector_library_total:
  "vector_phase_loop G rr \<sigma> (items (struct_lib SL)) Map.empty = Inr m \<Longrightarrow>
   attrs (struct_lib SL) ''indentifiers'' = Some ids \<Longrightarrow>
   attrs (struct_lib SL) ''structures'' = Some strs \<Longrightarrow>
   get_vector_library G SL rr \<sigma> = Inr \<lparr>lib_dict = m, identifiers = ids, structures = strs\<rparr>"
  by (simp add: get_vector_library_def Let_def getattr_def)

lemma pair_body_Inr:
  "pair_body G I C D comb pv = Inr pv' \<Longrightarrow> pv' = pv @ [vector_pair_of G I C D comb]"
  by (cases comb) (simp add: pair_body_def getitem_def vector_pair_of_def split: if_splits)

lemma pair_body_total:
  "fst comb < length I \<Longrightarrow> snd comb < length I \<Longrightarrow> fst comb < length C \<Longrightarrow> snd comb < length C
   \<Longrightarrow> fst comb < length D \<Longrightarrow> snd comb < length D
   \<Longrightarrow> pair_body G I C D comb pv = Inr (pv @ [vector_pair_of G I C D comb])"
  by (cases comb) (simp add: pair_body_def getitem_def vector_pair_of_def)

lemma pair_loop_Inr:
  "pair_loop G I C D combs pv = Inr r \<Longrightarrow> r = pv @ map (vector_pair_of G I C D) combs"
proof (induction combs arbitrary: pv)
  case Nil
  then show ?case by simp
next
  case (Cons comb combs)
  from Cons.prems obtain pv' where b: "pair_body G I C D comb pv = Inr pv'"
    and l: "pair_loop G I C D combs pv' = Inr r"
    by (auto split: sum.splits)
  from Cons.IH [OF l] pair_body_Inr [OF b] show ?case by simp
qed

lemma pair_loop_total:
  "\<forall>comb \<in> set combs. fst comb < length I \<and> snd comb < length I \<and> fst comb < length C \<and> snd comb < length C
       \<and> fst comb < length D \<and> snd comb < length D
   \<Longrightarrow> pair_loop G I C D combs pv = Inr (pv @ map (vector_pair_of G I C D) combs)"
proof (induction combs arbitrary: pv)
  case Nil
  then show ?case by simp
next
  case (Cons comb combs)
  then show ?case by (simp add: pair_body_total)
qed

lemma length_combinations2: "length (combinations2 xs) = length xs * (length xs - 1) div 2"
proof (induction xs)
  case Nil
  then show ?case by simp
next
  case (Cons x xs)
  have "length xs + length xs * (length xs - 1) div 2 = (length xs + 1) * length xs div 2"
    by (cases "length xs") (auto simp: algebra_simps)
  with Cons show ?case by simp
qed

lemma combinations2_upt: "combinations2 [m..<n] = concat (map (\<lambda>i. map (Pair i) [Suc i..<n]) [m..<n])"
proof (induction "n - m" arbitrary: m)
  case 0
  then show ?case by simp
next
  case (Suc k)
  then have "m < n" by simp
  then have "[m..<n] = m # [Suc m..<n]" by (simp add: upt_conv_Cons)
  moreover have "combinations2 [Suc m..<n] = concat (map (\<lambda>i. map (Pair i) [Suc i..<n]) [Suc m..<n])"
    using Suc by simp
  ultimately show ?case by simp
qed


lemma set_combinations2_arange: "set (combinations2 (arange n)) = {(i, j). i < j \<and> j < n}"
  by (fastforce simp: arange_def combinations2_upt)

lemma sorted_wrt_concat_map:
  "sorted_wrt (\<lambda>i i'. \<forall>x \<in> set (f i). \<forall>y \<in> set (f i'). R x y) xs \<Longrightarrow> (\<forall>i \<in> set xs. sorted_wrt R (f i))
    \<Longrightarrow> sorted_wrt R (concat (map f xs))"
  by (induction xs) (auto simp: sorted_wrt_append)

lemma sorted_combinations2_arange:
  "sorted_wrt (\<lambda>(i, j) (i', j'). i < i' \<or> (i = i' \<and> j < j')) (combinations2 (arange n))"
  unfolding arange_def combinations2_upt
  apply (rule sorted_wrt_concat_map)
   apply (auto simp: sorted_wrt_map sorted_wrt_iff_nth_less)
  done


lemma vector_phase_body_Inr:
  "vector_phase_body G rr \<sigma> (key, addr, os) m = Inr m' \<Longrightarrow>
   get_points_in_sphere G (reciprocal G (lattice (\<sigma> addr))) rr = (I, C, D) \<Longrightarrow>
   m' = m(key \<mapsto> map (vector_pair_of G I C D) (combinations2 (arange (length I))))"
  by (auto simp: vector_phase_body_def Let_def split: sum.splits dest: pair_loop_Inr)

lemma vector_phase_body_dom:
  "vector_phase_body G rr \<sigma> item m = Inr m' \<Longrightarrow> dom m' = insert (fst item) (dom m)"
  by (auto simp: vector_phase_body_def Let_def split: sum.splits prod.splits)

lemma vector_phase_body_other:
  "vector_phase_body G rr \<sigma> item m = Inr m' \<Longrightarrow> k \<noteq> fst item \<Longrightarrow> m' k = m k"
  by (auto simp: vector_phase_body_def Let_def split: sum.splits prod.splits)

lemma vector_phase_loop_dom:
  "vector_phase_loop G rr \<sigma> its m = Inr m' \<Longrightarrow> dom m' = dom m \<union> fst ` set its"
proof (induction its arbitrary: m)
  case Nil
  then show ?case by simp
next
  case (Cons item its)
  from Cons.prems obtain m1 where b: "vector_phase_body G rr \<sigma> item m = Inr m1"
    and l: "vector_phase_loop G rr \<sigma> its m1 = Inr m'"
    by (auto split: sum.splits)
  from Cons.IH [OF l] vector_phase_body_dom [OF b] show ?case by auto
qed

lemma vector_phase_loop_other:
  "vector_phase_loop G rr \<sigma> its m = Inr m' \<Longrightarrow> k \<notin> fst ` set its \<Longrightarrow> m' k = m k"
proof (induction its arbitrary: m)
  case Nil
  then show ?case by simp
next
  case (Cons item its)
  from Cons.prems obtain m1 where b: "vector_phase_body G rr \<sigma> item m = Inr m1"
    and l: "vector_phase_loop G rr \<sigma> its m1 = Inr m'"
    by (auto split: sum.splits)
  from Cons.prems have "k \<noteq> fst item" "k \<notin> fst ` set its" by auto
  with Cons.IH [OF l] vector_phase_body_other [OF b] show ?case by simp
qed

lemma vector_phase_loop_entry:
  "vector_phase_loop G rr \<sigma> its m = Inr m' \<Longrightarrow> distinct (map fst its) \<Longrightarrow>
   (key, addr, os) \<in> set its \<Longrightarrow>
   get_points_in_sphere G (reciprocal G (lattice (\<sigma> addr))) rr = (I, C, D) \<Longrightarrow>
   m' key = Some (map (vector_pair_of G I C D) (combinations2 (arange (length I))))"
proof (induction its arbitrary: m)
  case Nil
  then show ?case by simp
next
  case (Cons item its)
  from Cons.prems obtain m1 where b: "vector_phase_body G rr \<sigma> item m = Inr m1"
    and l: "vector_phase_loop G rr \<sigma> its m1 = Inr m'"
    by (auto split: sum.splits)
  show ?case
  proof (cases "item = (key, addr, os)")
    case True
    with Cons.prems have "key \<notin> fst ` set its" by auto
    then have "m' key = m1 key" by (rule vector_phase_loop_other [OF l])
    also have "m1 key = Some (map (vector_pair_of G I C D) (combinations2 (arange (length I))))"
      using vector_phase_body_Inr [OF b [unfolded True] Cons.prems(4)] by simp
    finally show ?thesis .
  next
    case False
    with Cons.prems have "(key, addr, os) \<in> set its" "distinct (map fst its)" by auto
    then show ?thesis using Cons.IH [OF l] Cons.prems(4) by blast
  qed
qed

lemma vector_phase_body_total:
  "parallel_points G rr \<sigma> (fst (snd item)) \<Longrightarrow> \<exists>m'. vector_phase_body G rr \<sigma> item m = Inr m'"
  by (cases item)
    (auto simp: vector_phase_body_def Let_def parallel_points_def set_combinations2_arange
      pair_loop_total split: prod.splits)

lemma vector_phase_loop_total:
  "\<forall>item \<in> set its. parallel_points G rr \<sigma> (fst (snd item)) \<Longrightarrow>
   \<exists>m'. vector_phase_loop G rr \<sigma> its m = Inr m'"
proof (induction its arbitrary: m)
  case Nil
  then show ?case by simp
next
  case (Cons item its)
  then obtain m1 where "vector_phase_body G rr \<sigma> item m = Inr m1"
    using vector_phase_body_total [of G rr \<sigma> item m] by auto
  with Cons show ?case by simp
qed

section \<open>Lemmas about the diffraction library generator\<close>

subsection \<open>The structures in the store\<close>

lemma cell_parameters_Lattice [simp]:
  "cell_parameters (Lattice a b c al be ga m) = (a, b, c, al, be, ga)"
  by (simp add: cell_parameters_def Lattice_def)

lemma latt_rot_cell: "latt_rot X cell orientation = Inr L \<Longrightarrow> cell_parameters L = cell"
  by (cases cell) (auto simp: latt_rot_def Let_def split: if_splits)

lemma latt_rot_cases:
  "latt_rot X cell orientation = Inl IndexError \<and> length orientation < 3 \<or>
   (\<exists>L. latt_rot X cell orientation = Inr L \<and> 3 \<le> length orientation)"
  by (cases cell) (auto simp: latt_rot_def Let_def)

lemma lattice_placeInLattice [simp]: "lattice (placeInLattice X L s) = L"
  by (simp add: placeInLattice_def)

lemma simulate_orientation_cell:
  "cell_parameters (lattice s) = cell \<Longrightarrow>
   cell_parameters (lattice (snd (simulate_orientation X P cell orientation s))) = cell"
  by (auto simp: simulate_orientation_def Let_def split: sum.splits dest: latt_rot_cell)

lemma simulate_orientation_Inr:
  "simulate_orientation X P cell orientation s = (Inr data, s') \<Longrightarrow>
   \<exists>L. latt_rot X cell orientation = Inr L \<and> s' = placeInLattice X L s"
  by (auto simp: simulate_orientation_def Let_def split: sum.splits)

lemma snd_orientation_body:
  "snd (orientation_body X P cell a key orientation acc \<sigma>) =
     \<sigma>(a := snd (simulate_orientation X P cell orientation (\<sigma> a)))"
  by (cases acc) (auto simp: orientation_body_def Let_def split: sum.splits prod.splits)

lemma orientation_loop_other:
  "orientation_loop X P cell a key os acc \<sigma> = (r, \<sigma>') \<Longrightarrow> b \<noteq> a \<Longrightarrow> \<sigma>' b = \<sigma> b"
proof (induction os arbitrary: acc \<sigma>)
  case Nil
  then show ?case by simp
next
  case (Cons orientation os)
  obtain r1 \<sigma>1 where b: "orientation_body X P cell a key orientation acc \<sigma> = (r1, \<sigma>1)"
    by (cases "orientation_body X P cell a key orientation acc \<sigma>")
  have s1: "\<sigma>1 b = \<sigma> b"
    using snd_orientation_body [of X P cell a key orientation acc \<sigma>] b Cons.prems(2) by simp
  show ?case
  proof (cases r1)
    case (Inl err)
    with b Cons.prems s1 show ?thesis by simp
  next
    case (Inr acc')
    with b Cons.prems have "orientation_loop X P cell a key os acc' \<sigma>1 = (r, \<sigma>')" by simp
    from Cons.IH [OF this Cons.prems(2)] s1 show ?thesis by simp
  qed
qed

lemma orientation_loop_cell:
  "orientation_loop X P cell a key os acc \<sigma> = (r, \<sigma>') \<Longrightarrow> cell_parameters (lattice (\<sigma> a)) = cell
   \<Longrightarrow> cell_parameters (lattice (\<sigma>' a)) = cell"
proof (induction os arbitrary: acc \<sigma>)
  case Nil
  then show ?case by simp
next
  case (Cons orientation os)
  obtain r1 \<sigma>1 where b: "orientation_body X P cell a key orientation acc \<sigma> = (r1, \<sigma>1)"
    by (cases "orientation_body X P cell a key orientation acc \<sigma>")
  have s1: "cell_parameters (lattice (\<sigma>1 a)) = cell"
    using snd_orientation_body [of X P cell a key orientation acc \<sigma>] b
      simulate_orientation_cell [OF Cons.prems(2)] by simp
  show ?case
  proof (cases r1)
    case (Inl err)
    with b Cons.prems s1 show ?thesis by simp
  next
    case (Inr acc')
    with b Cons.prems have "orientation_loop X P cell a key os acc' \<sigma>1 = (r, \<sigma>')" by simp
    from Cons.IH [OF this s1] show ?thesis .
  qed
qed

lemma orientation_loop_last:
  "orientation_loop X P cell a key os acc \<sigma> = (Inr acc', \<sigma>') \<Longrightarrow> os \<noteq> [] \<Longrightarrow>
   latt_rot X cell (last os) = Inr (lattice (\<sigma>' a))"
proof (induction os arbitrary: acc \<sigma>)
  case Nil
  then show ?case by simp
next
  case (Cons orientation os)
  obtain r1 \<sigma>1 where b: "orientation_body X P cell a key orientation acc \<sigma> = (r1, \<sigma>1)"
    by (cases "orientation_body X P cell a key orientation acc \<sigma>")
  with Cons.prems obtain acc1 where r1: "r1 = Inr acc1"
    and l: "orientation_loop X P cell a key os acc1 \<sigma>1 = (Inr acc', \<sigma>')"
    by (cases r1) auto
  show ?case
  proof (cases "os = []")
    case True
    with l have "\<sigma>' = \<sigma>1" by simp
    moreover from b r1 obtain data s' where "simulate_orientation X P cell orientation (\<sigma> a) = (Inr data, s')"
      and "\<sigma>1 = \<sigma>(a := s')"
      by (cases acc) (auto simp: orientation_body_def Let_def split: sum.splits prod.splits if_splits)
    ultimately show ?thesis using True by (auto dest: simulate_orientation_Inr)
  next
    case False
    with Cons.IH [OF l] show ?thesis by simp
  qed
qed

lemma phase_body_other:
  "phase_body X P (key, a, os) lib \<sigma> = (r, \<sigma>') \<Longrightarrow> b \<noteq> a \<Longrightarrow> \<sigma>' b = \<sigma> b"
  by (auto simp: phase_body_def Let_def split: prod.splits sum.splits dest: orientation_loop_other)

lemma phase_body_empty:
  "phase_body X P (key, a, []) lib \<sigma> = (r, \<sigma>') \<Longrightarrow> \<sigma>' = \<sigma>"
  by (auto simp: phase_body_def Let_def split: prod.splits sum.splits)

lemma phase_body_cell:
  "phase_body X P item lib \<sigma> = (r, \<sigma>') \<Longrightarrow>
   cell_parameters (lattice (\<sigma>' b)) = cell_parameters (lattice (\<sigma> b))"
proof -
  obtain key a os where item: "item = (key, a, os)" by (cases item)
  assume p: "phase_body X P item lib \<sigma> = (r, \<sigma>')"
  show ?thesis
  proof (cases "b = a")
    case True
    obtain r1 \<sigma>1 where l: "orientation_loop X P (cell_parameters (lattice (\<sigma> a))) a key os (Map.empty, lib) \<sigma> = (r1, \<sigma>1)"
      by (cases "orientation_loop X P (cell_parameters (lattice (\<sigma> a))) a key os (Map.empty, lib) \<sigma>")
    with p item have "\<sigma>' = \<sigma>1"
      by (auto simp: phase_body_def Let_def split: prod.splits sum.splits)
    with orientation_loop_cell [OF l] True show ?thesis by simp
  next
    case False
    with p item phase_body_other show ?thesis by metis
  qed
qed

lemma phase_body_last:
  "phase_body X P (key, a, os) lib \<sigma> = (Inr lib', \<sigma>') \<Longrightarrow> os \<noteq> [] \<Longrightarrow>
   latt_rot X (cell_parameters (lattice (\<sigma> a))) (last os) = Inr (lattice (\<sigma>' a))"
  by (auto simp: phase_body_def Let_def split: prod.splits sum.splits dest: orientation_loop_last)

lemma phase_loop_cell:
  "phase_loop X P its lib \<sigma> = (r, \<sigma>') \<Longrightarrow>
   cell_parameters (lattice (\<sigma>' b)) = cell_parameters (lattice (\<sigma> b))"
proof (induction its arbitrary: lib \<sigma>)
  case Nil
  then show ?case by simp
next
  case (Cons item its)
  obtain r1 \<sigma>1 where b: "phase_body X P item lib \<sigma> = (r1, \<sigma>1)"
    by (cases "phase_body X P item lib \<sigma>")
  note c = phase_body_cell [OF b, of b]
  show ?case
  proof (cases r1)
    case (Inl err)
    with b Cons.prems c show ?thesis by simp
  next
    case (Inr lib1)
    with b Cons.prems have "phase_loop X P its lib1 \<sigma>1 = (r, \<sigma>')" by simp
    from Cons.IH [OF this] c show ?thesis by simp
  qed
qed

lemma phase_loop_untouched:
  "phase_loop X P its lib \<sigma> = (r, \<sigma>') \<Longrightarrow>
   \<forall>item \<in> set its. fst (snd item) = a \<longrightarrow> snd (snd item) = [] \<Longrightarrow> \<sigma>' a = \<sigma> a"
proof (induction its arbitrary: lib \<sigma>)
  case Nil
  then show ?case by simp
next
  case (Cons item its)
  obtain key a' os where item: "item = (key, a', os)" by (cases item)
  obtain r1 \<sigma>1 where b: "phase_body X P (key, a', os) lib \<sigma> = (r1, \<sigma>1)"
    by (cases "phase_body X P (key, a', os) lib \<sigma>")
  have c: "\<sigma>1 a = \<sigma> a"
  proof (cases "a' = a")
    case True
    with Cons.prems(2) item have "os = []" by simp
    with b phase_body_empty show ?thesis by metis
  next
    case False
    with phase_body_other [OF b] show ?thesis by simp
  qed
  show ?case
  proof (cases r1)
    case (Inl err)
    with b item Cons.prems c show ?thesis by simp
  next
    case (Inr lib1)
    with b item Cons.prems have "phase_loop X P its lib1 \<sigma>1 = (r, \<sigma>')" by simp
    from Cons.IH [OF this] Cons.prems(2) c show ?thesis by simp
  qed
qed

lemma phase_loop_last:
  "phase_loop X P (pre @ (key, a, os) # post) lib \<sigma> = (Inr lib', \<sigma>') \<Longrightarrow> os \<noteq> [] \<Longrightarrow>
   \<forall>item \<in> set post. fst (snd item) = a \<longrightarrow> snd (snd item) = [] \<Longrightarrow>
   latt_rot X (cell_parameters (lattice (\<sigma> a))) (last os) = Inr (lattice (\<sigma>' a))"
proof (induction pre arbitrary: lib \<sigma>)
  case Nil
  obtain r1 \<sigma>1 where b: "phase_body X P (key, a, os) lib \<sigma> = (r1, \<sigma>1)"
    by (cases "phase_body X P (key, a, os) lib \<sigma>")
  with Nil.prems obtain lib1 where r1: "r1 = Inr lib1"
    and l: "phase_loop X P post lib1 \<sigma>1 = (Inr lib', \<sigma>')"
    by (cases r1) auto
  from phase_loop_untouched [OF l Nil.prems(3)] phase_body_last [OF b [unfolded r1] Nil.prems(2)]
  show ?case by simp
next
  case (Cons item pre)
  obtain r1 \<sigma>1 where b: "phase_body X P item lib \<sigma> = (r1, \<sigma>1)"
    by (cases "phase_body X P item lib \<sigma>")
  with Cons.prems obtain lib1 where r1: "r1 = Inr lib1"
    and l: "phase_loop X P (pre @ (key, a, os) # post) lib1 \<sigma>1 = (Inr lib', \<sigma>')"
    by (cases r1) auto
  from Cons.IH [OF l Cons.prems(2,3)] phase_body_cell [OF b, of a] show ?case by simp
qed

subsection \<open>The library in terms of the simulations\<close>

lemma orientation_body_Inr:
  "orientation_body X P cell a key orientation (pdl0, lib0) \<sigma> = (Inr (pdl, lib), \<sigma>') \<Longrightarrow>
   \<exists>data s'. simulate_orientation X P cell orientation (\<sigma> a) = (Inr data, s') \<and> \<sigma>' = \<sigma>(a := s') \<and>
     (if get_intensities X data \<noteq> []
      then pdl = pdl0(orientation \<mapsto> make_record X P data) \<and> lib = lib0(key \<mapsto> pdl)
      else pdl = pdl0 \<and> lib = lib0)"
  by (auto simp: orientation_body_def Let_def split: sum.splits prod.splits if_splits)

lemma orientation_loop_log:
  "orientation_loop X P cell a key os (pdl0, lib0) \<sigma> = (Inr (pdl, lib), \<sigma>') \<Longrightarrow>
   pdl = pdl0 ++ map_of (rev (records X P (retained X (orientation_log X P cell os (\<sigma> a))))) \<and>
   lib = (if retained X (orientation_log X P cell os (\<sigma> a)) = [] then lib0 else lib0(key \<mapsto> pdl)) \<and>
   map fst (orientation_log X P cell os (\<sigma> a)) = os"
proof (induction os arbitrary: pdl0 lib0 \<sigma>)
  case Nil
  then show ?case by (simp add: retained_def records_def)
next
  case (Cons orientation os)
  obtain r1 \<sigma>1 where b: "orientation_body X P cell a key orientation (pdl0, lib0) \<sigma> = (r1, \<sigma>1)"
    by (cases "orientation_body X P cell a key orientation (pdl0, lib0) \<sigma>")
  with Cons.prems obtain pdl1 lib1 where r1: "r1 = Inr (pdl1, lib1)"
    and l: "orientation_loop X P cell a key os (pdl1, lib1) \<sigma>1 = (Inr (pdl, lib), \<sigma>')"
    by (cases r1) auto
  from orientation_body_Inr [OF b [unfolded r1]] obtain data s'
    where sim: "simulate_orientation X P cell orientation (\<sigma> a) = (Inr data, s')"
      and \<sigma>1: "\<sigma>1 = \<sigma>(a := s')"
      and upd: "if get_intensities X data \<noteq> []
        then pdl1 = pdl0(orientation \<mapsto> make_record X P data) \<and> lib1 = lib0(key \<mapsto> pdl1)
        else pdl1 = pdl0 \<and> lib1 = lib0"
    by blast
  let ?lg = "orientation_log X P cell os s'"
  have lg: "orientation_log X P cell (orientation # os) (\<sigma> a) = (orientation, s', data) # ?lg"
    using sim by simp
  from Cons.IH [OF l] \<sigma>1
  have ih: "pdl = pdl1 ++ map_of (rev (records X P (retained X ?lg)))"
    "lib = (if retained X ?lg = [] then lib1 else lib1(key \<mapsto> pdl))"
    "map fst ?lg = os"
    by simp_all
  show ?case
  proof (cases "get_intensities X data \<noteq> []")
    case True
    with upd have u: "pdl1 = pdl0(orientation \<mapsto> make_record X P data)" "lib1 = lib0(key \<mapsto> pdl1)"
      by simp_all
    have r: "retained X ((orientation, s', data) # ?lg) = (orientation, s', data) # retained X ?lg"
      using True by (simp add: retained_def)
    have "pdl0 ++ map_of (rev (records X P ((orientation, s', data) # retained X ?lg)))
        = pdl1 ++ map_of (rev (records X P (retained X ?lg)))"
      by (simp add: records_def u map_add_assoc [symmetric] map_add_upd_left)
    moreover have "lib0(key \<mapsto> pdl) = (if retained X ?lg = [] then lib1 else lib1(key \<mapsto> pdl))"
      using u ih(1) by (simp add: records_def)
    ultimately show ?thesis using ih lg r by simp
  next
    case False
    with upd have u: "pdl1 = pdl0" "lib1 = lib0" by simp_all
    have r: "retained X ((orientation, s', data) # ?lg) = retained X ?lg"
      using False by (simp add: retained_def)
    show ?thesis using ih lg r u by simp
  qed
qed

lemma phase_body_log:
  "phase_body X P (key, a, os) lib0 \<sigma> = (Inr lib, \<sigma>') \<Longrightarrow>
   lib = (if retained X (orientation_log X P (cell_parameters (lattice (\<sigma> a))) os (\<sigma> a)) = [] then lib0
          else lib0(key \<mapsto> map_of (rev (records X P
                 (retained X (orientation_log X P (cell_parameters (lattice (\<sigma> a))) os (\<sigma> a))))))) \<and>
   map fst (orientation_log X P (cell_parameters (lattice (\<sigma> a))) os (\<sigma> a)) = os"
proof -
  assume p: "phase_body X P (key, a, os) lib0 \<sigma> = (Inr lib, \<sigma>')"
  then obtain pdl where "orientation_loop X P (cell_parameters (lattice (\<sigma> a))) a key os (Map.empty, lib0) \<sigma>
      = (Inr (pdl, lib), \<sigma>')"
    by (auto simp: phase_body_def Let_def split: sum.splits prod.splits)
  from orientation_loop_log [OF this] show ?thesis by simp
qed

lemma ed_log_keys: "fst ` set (ed_log X P its lib \<sigma>) \<subseteq> fst ` set its"
proof (induction its arbitrary: lib \<sigma>)
  case Nil
  then show ?case by simp
next
  case (Cons item its)
  obtain key a os where item: "item = (key, a, os)" by (cases item)
  have "fst ` set (case phase_body X P (key, a, os) lib \<sigma> of
          (Inl err, \<sigma>') \<Rightarrow> []
        | (Inr diffraction_library', \<sigma>') \<Rightarrow> ed_log X P its diffraction_library' \<sigma>') \<subseteq> fst ` set its"
  proof (cases "phase_body X P (key, a, os) lib \<sigma>")
    case (Pair r1 \<sigma>1)
    then show ?thesis using Cons.IH [of _ \<sigma>1] by (cases r1) simp_all
  qed
  then show ?case unfolding item by auto
qed

lemma phase_log_append [simp]: "phase_log k (xs @ ys) = phase_log k xs @ phase_log k ys"
  by (simp add: phase_log_def)

lemma phase_log_Pair [simp]: "phase_log k (map (Pair key) xs) = (if k = key then xs else [])"
  by (induction xs) (auto simp: phase_log_def)

lemma phase_log_absent: "k \<notin> fst ` set lg \<Longrightarrow> phase_log k lg = []"
  by (induction lg) (auto simp: phase_log_def)

lemma retained_append [simp]: "retained X (xs @ ys) = retained X xs @ retained X ys"
  by (simp add: retained_def)

lemma retained_Nil [simp]: "retained X [] = []"
  by (simp add: retained_def)

lemma phase_loop_log:
  "phase_loop X P its lib0 \<sigma> = (Inr lib, \<sigma>') \<Longrightarrow> distinct (map fst its) \<Longrightarrow>
   lib k = (if retained X (phase_log k (ed_log X P its lib0 \<sigma>)) = [] then lib0 k
            else Some (map_of (rev (records X P (retained X (phase_log k (ed_log X P its lib0 \<sigma>)))))))"
proof (induction its arbitrary: lib0 \<sigma>)
  case Nil
  then show ?case by (simp add: phase_log_def retained_def)
next
  case (Cons item its)
  obtain key a os where item: "item = (key, a, os)" by (cases item)
  obtain r1 \<sigma>1 where b: "phase_body X P (key, a, os) lib0 \<sigma> = (r1, \<sigma>1)"
    by (cases "phase_body X P (key, a, os) lib0 \<sigma>")
  with Cons.prems item obtain lib1 where r1: "r1 = Inr lib1"
    and l: "phase_loop X P its lib1 \<sigma>1 = (Inr lib, \<sigma>')"
    by (cases r1) auto
  let ?olg = "orientation_log X P (cell_parameters (lattice (\<sigma> a))) os (\<sigma> a)"
  let ?rest = "ed_log X P its lib1 \<sigma>1"
  have lg: "ed_log X P (item # its) lib0 \<sigma> = map (Pair key) ?olg @ ?rest"
    using b r1 item by simp
  from Cons.prems item have d: "distinct (map fst its)" and nk: "key \<notin> fst ` set its" by auto
  note ih = Cons.IH [OF l d]
  note pb = phase_body_log [OF b [unfolded r1]]
  show ?case
  proof (cases "k = key")
    case True
    from nk ed_log_keys [of X P its lib1 \<sigma>1] have "key \<notin> fst ` set ?rest" by blast
    then have e: "phase_log key ?rest = []" by (rule phase_log_absent)
    with ih True have "lib k = lib1 key" by simp
    moreover from pb have "lib1 key = (if retained X ?olg = [] then lib0 key
        else Some (map_of (rev (records X P (retained X ?olg)))))"
      by simp
    moreover have "phase_log k (ed_log X P (item # its) lib0 \<sigma>) = ?olg"
      unfolding lg using True e by simp
    ultimately show ?thesis using True by simp
  next
    case False
    with pb have "lib1 k = lib0 k" by simp
    moreover have "phase_log k (ed_log X P (item # its) lib0 \<sigma>) = phase_log k ?rest"
      unfolding lg using False by simp
    ultimately show ?thesis using ih by simp
  qed
qed

lemma map_key_orientation_Pair:
  "map (\<lambda>e. (fst e, fst (snd e))) (map (Pair key) xs) = map (Pair key) (map fst xs)"
  by (induction xs) auto

lemma ed_log_cover:
  "phase_loop X P its lib0 \<sigma> = (Inr lib, \<sigma>') \<Longrightarrow>
   map (\<lambda>e. (fst e, fst (snd e))) (ed_log X P its lib0 \<sigma>)
     = concat (map (\<lambda>(key, a, os). map (Pair key) os) its)"
proof (induction its arbitrary: lib0 \<sigma>)
  case Nil
  then show ?case by simp
next
  case (Cons item its)
  obtain key a os where item: "item = (key, a, os)" by (cases item)
  obtain r1 \<sigma>1 where b: "phase_body X P (key, a, os) lib0 \<sigma> = (r1, \<sigma>1)"
    by (cases "phase_body X P (key, a, os) lib0 \<sigma>")
  with Cons.prems item obtain lib1 where r1: "r1 = Inr lib1"
    and l: "phase_loop X P its lib1 \<sigma>1 = (Inr lib, \<sigma>')"
    by (cases r1) auto
  let ?olg = "orientation_log X P (cell_parameters (lattice (\<sigma> a))) os (\<sigma> a)"
  have "map fst ?olg = os" using phase_body_log [OF b [unfolded r1]] by simp
  then have "map (\<lambda>e. (fst e, fst (snd e))) (map (Pair key) ?olg) = map (Pair key) os"
    by (simp only: map_key_orientation_Pair)
  moreover have "ed_log X P (item # its) lib0 \<sigma> = map (Pair key) ?olg @ ed_log X P its lib1 \<sigma>1"
    using b r1 item by simp
  ultimately show ?case using Cons.IH [OF l] item by (simp del: map_map)
qed

lemma get_diffraction_library_Inr:
  "get_diffraction_library X SL cal rr hs wdb \<sigma> = (Inr lib, \<sigma>') \<Longrightarrow>
   phase_loop X (call_args cal rr hs wdb) (items (struct_lib SL)) Map.empty \<sigma> = (Inr (lib_dict lib), \<sigma>') \<and>
   attrs (struct_lib SL) ''indentifiers'' = Some (identifiers lib) \<and>
   attrs (struct_lib SL) ''structures'' = Some (structures lib)"
  by (auto simp: get_diffraction_library_def Let_def getattr_def split: sum.splits option.splits prod.splits)

lemma get_diffraction_library_total:
  "phase_loop X (call_args cal rr hs wdb) (items (struct_lib SL)) Map.empty \<sigma> = (Inr m, \<sigma>') \<Longrightarrow>
   attrs (struct_lib SL) ''indentifiers'' = Some ids \<Longrightarrow>
   attrs (struct_lib SL) ''structures'' = Some strs \<Longrightarrow>
   get_diffraction_library X SL cal rr hs wdb \<sigma> = (Inr \<lparr>lib_dict = m, identifiers = ids, structures = strs\<rparr>, \<sigma>')"
  by (simp add: get_diffraction_library_def Let_def getattr_def)

lemma snd_get_diffraction_library:
  "snd (get_diffraction_library X SL cal rr hs wdb \<sigma>) =
   snd (phase_loop X (call_args cal rr hs wdb) (items (struct_lib SL)) Map.empty \<sigma>)"
  by (auto simp: get_diffraction_library_def Let_def split: sum.splits prod.splits)

subsection \<open>Loops over appended lists\<close>

lemma orientation_loop_append:
  "orientation_loop X P cell a key (os1 @ os2) acc \<sigma> =
     (case orientation_loop X P cell a key os1 acc \<sigma> of
        (Inl err, \<sigma>') \<Rightarrow> (Inl err, \<sigma>')
      | (Inr acc', \<sigma>') \<Rightarrow> orientation_loop X P cell a key os2 acc' \<sigma>')"
  by (induction os1 arbitrary: acc \<sigma>) (auto split: sum.splits prod.splits)

lemma phase_loop_append:
  "phase_loop X P (its1 @ its2) lib \<sigma> =
     (case phase_loop X P its1 lib \<sigma> of
        (Inl err, \<sigma>') \<Rightarrow> (Inl err, \<sigma>')
      | (Inr lib', \<sigma>') \<Rightarrow> phase_loop X P its2 lib' \<sigma>')"
  by (induction its1 arbitrary: lib \<sigma>) (auto split: sum.splits prod.splits)

lemma orientation_body_raise:
  "latt_rot X cell orientation = Inr L \<Longrightarrow>
   calculate_ed_data X (placeInLattice X L (\<sigma> a)) (reciprocal_radius P) (with_direct_beam P) = Inl e \<Longrightarrow>
   orientation_body X P cell a key orientation acc \<sigma> = (Inl (Raised e), \<sigma>(a := placeInLattice X L (\<sigma> a)))"
  by (cases acc) (simp add: orientation_body_def simulate_orientation_def Let_def)

subsection \<open>Runs from stores that agree up to placement\<close>

lemma same_placement_refl [simp]: "same_placement X s s"
  by (simp add: same_placement_def)

lemma same_placement_sym: "same_placement X s t \<Longrightarrow> same_placement X t s"
  by (simp add: same_placement_def)

lemma same_placement_trans: "same_placement X s t \<Longrightarrow> same_placement X t u \<Longrightarrow> same_placement X s u"
  by (simp add: same_placement_def)

lemma placement_stableD:
  "placement_stable X \<Longrightarrow> placeInLattice X L' (placeInLattice X L s) = placeInLattice X L' s"
  by (simp add: placement_stable_def placeInLattice_def)

lemma simulate_orientation_same:
  assumes "same_placement X s t"
  shows "fst (simulate_orientation X P cell orientation s) = fst (simulate_orientation X P cell orientation t) \<and>
         same_placement X (snd (simulate_orientation X P cell orientation s))
                          (snd (simulate_orientation X P cell orientation t))"
proof (cases "latt_rot X cell orientation")
  case (Inl err)
  with assms show ?thesis by (simp add: simulate_orientation_def)
next
  case (Inr L)
  from assms have "placeInLattice X L s = placeInLattice X L t" by (simp add: same_placement_def)
  with Inr show ?thesis by (simp add: simulate_orientation_def Let_def split: sum.splits)
qed

lemma simulate_orientation_stable:
  assumes "placement_stable X" and "cell_parameters (lattice s) = cell"
  shows "same_placement X (snd (simulate_orientation X P cell orientation s)) s"
proof (cases "latt_rot X cell orientation")
  case (Inl err)
  then show ?thesis by (simp add: simulate_orientation_def)
next
  case (Inr L)
  then have "snd (simulate_orientation X P cell orientation s) = placeInLattice X L s"
    by (simp add: simulate_orientation_def Let_def split: sum.splits)
  moreover have "same_placement X (placeInLattice X L s) s"
    using assms latt_rot_cell [OF Inr] by (simp add: same_placement_def placement_stableD)
  ultimately show ?thesis by simp
qed

lemma orientation_body_same:
  assumes rel: "\<forall>b. same_placement X (\<sigma> b) (\<tau> b)"
  shows "fst (orientation_body X P cell a key orientation acc \<sigma>)
           = fst (orientation_body X P cell a key orientation acc \<tau>) \<and>
         (\<forall>b. same_placement X (snd (orientation_body X P cell a key orientation acc \<sigma>) b)
                                (snd (orientation_body X P cell a key orientation acc \<tau>) b))"
proof -
  obtain r s' where s: "simulate_orientation X P cell orientation (\<sigma> a) = (r, s')"
    by (cases "simulate_orientation X P cell orientation (\<sigma> a)")
  obtain r2 t' where t: "simulate_orientation X P cell orientation (\<tau> a) = (r2, t')"
    by (cases "simulate_orientation X P cell orientation (\<tau> a)")
  from rel have "same_placement X (\<sigma> a) (\<tau> a)" by simp
  from simulate_orientation_same [OF this, of P cell orientation] s t
  have eq: "r2 = r" and st: "same_placement X s' t'" by simp_all
  have "fst (orientation_body X P cell a key orientation acc \<sigma>)
      = fst (orientation_body X P cell a key orientation acc \<tau>)"
    using s t eq by (cases acc; cases r) (simp_all add: orientation_body_def Let_def)
  moreover have "\<forall>b. same_placement X ((\<sigma>(a := s')) b) ((\<tau>(a := t')) b)"
    using rel st by simp
  ultimately show ?thesis using s t by (simp only: snd_orientation_body snd_conv) simp
qed

lemma orientation_loop_same:
  "\<forall>b. same_placement X (\<sigma> b) (\<tau> b) \<Longrightarrow>
   fst (orientation_loop X P cell a key os acc \<sigma>) = fst (orientation_loop X P cell a key os acc \<tau>) \<and>
   (\<forall>b. same_placement X (snd (orientation_loop X P cell a key os acc \<sigma>) b)
                          (snd (orientation_loop X P cell a key os acc \<tau>) b))"
proof (induction os arbitrary: acc \<sigma> \<tau>)
  case Nil
  then show ?case by simp
next
  case (Cons orientation os)
  obtain r \<sigma>1 where s: "orientation_body X P cell a key orientation acc \<sigma> = (r, \<sigma>1)"
    by (cases "orientation_body X P cell a key orientation acc \<sigma>")
  obtain r2 \<tau>1 where t: "orientation_body X P cell a key orientation acc \<tau> = (r2, \<tau>1)"
    by (cases "orientation_body X P cell a key orientation acc \<tau>")
  from orientation_body_same [OF Cons.prems, of P cell a key orientation acc] s t
  have eq: "r2 = r" and rel1: "\<forall>b. same_placement X (\<sigma>1 b) (\<tau>1 b)" by simp_all
  show ?case
  proof (cases r)
    case (Inl err)
    with s t eq rel1 show ?thesis by simp
  next
    case (Inr acc')
    with s t eq Cons.IH [OF rel1, of acc'] show ?thesis by simp
  qed
qed

lemma phase_body_same:
  assumes rel: "\<forall>b. same_placement X (\<sigma> b) (\<tau> b)"
  shows "fst (phase_body X P item lib \<sigma>) = fst (phase_body X P item lib \<tau>) \<and>
         (\<forall>b. same_placement X (snd (phase_body X P item lib \<sigma>) b) (snd (phase_body X P item lib \<tau>) b))"
proof -
  obtain key a os where item: "item = (key, a, os)" by (cases item)
  from rel have c: "cell_parameters (lattice (\<tau> a)) = cell_parameters (lattice (\<sigma> a))"
    by (simp add: same_placement_def)
  let ?cell = "cell_parameters (lattice (\<sigma> a))"
  obtain r \<sigma>1 where s: "orientation_loop X P ?cell a key os (Map.empty, lib) \<sigma> = (r, \<sigma>1)"
    by (cases "orientation_loop X P ?cell a key os (Map.empty, lib) \<sigma>")
  obtain r2 \<tau>1 where t: "orientation_loop X P ?cell a key os (Map.empty, lib) \<tau> = (r2, \<tau>1)"
    by (cases "orientation_loop X P ?cell a key os (Map.empty, lib) \<tau>")
  from orientation_loop_same [OF rel, of P ?cell a key os "(Map.empty, lib)"] s t
  have eq: "r2 = r" and rel1: "\<forall>b. same_placement X (\<sigma>1 b) (\<tau>1 b)" by simp_all
  show ?thesis
    using s t eq rel1 c unfolding item
    by (cases r) (auto simp: phase_body_def Let_def split: prod.splits)
qed

lemma phase_loop_same:
  "\<forall>b. same_placement X (\<sigma> b) (\<tau> b) \<Longrightarrow>
   fst (phase_loop X P its lib \<sigma>) = fst (phase_loop X P its lib \<tau>) \<and>
   (\<forall>b. same_placement X (snd (phase_loop X P its lib \<sigma>) b) (snd (phase_loop X P its lib \<tau>) b))"
proof (induction its arbitrary: lib \<sigma> \<tau>)
  case Nil
  then show ?case by simp
next
  case (Cons item its)
  obtain r \<sigma>1 where s: "phase_body X P item lib \<sigma> = (r, \<sigma>1)"
    by (cases "phase_body X P item lib \<sigma>")
  obtain r2 \<tau>1 where t: "phase_body X P item lib \<tau> = (r2, \<tau>1)"
    by (cases "phase_body X P item lib \<tau>")
  from phase_body_same [OF Cons.prems, of P item lib] s t
  have eq: "r2 = r" and rel1: "\<forall>b. same_placement X (\<sigma>1 b) (\<tau>1 b)" by simp_all
  show ?case
  proof (cases r)
    case (Inl err)
    with s t eq rel1 show ?thesis by simp
  next
    case (Inr lib')
    with s t eq Cons.IH [OF rel1, of lib'] show ?thesis by simp
  qed
qed

lemma get_diffraction_library_same:
  assumes "\<forall>b. same_placement X (\<sigma> b) (\<tau> b)"
  shows "fst (get_diffraction_library X SL cal rr hs wdb \<sigma>) = fst (get_diffraction_library X SL cal rr hs wdb \<tau>)"
proof -
  let ?P = "call_args cal rr hs wdb"
  obtain r \<sigma>1 where s: "phase_loop X ?P (items (struct_lib SL)) Map.empty \<sigma> = (r, \<sigma>1)"
    by (cases "phase_loop X ?P (items (struct_lib SL)) Map.empty \<sigma>")
  obtain r2 \<tau>1 where t: "phase_loop X ?P (items (struct_lib SL)) Map.empty \<tau> = (r2, \<tau>1)"
    by (cases "phase_loop X ?P (items (struct_lib SL)) Map.empty \<tau>")
  from phase_loop_same [OF assms, of ?P "items (struct_lib SL)" Map.empty] s t
  have "r2 = r" by simp
  with s t show ?thesis
    by (simp add: get_diffraction_library_def Let_def split: sum.splits)
qed

lemma orientation_loop_stable:
  "placement_stable X \<Longrightarrow> cell_parameters (lattice (\<sigma> a)) = cell \<Longrightarrow>
   same_placement X (snd (orientation_loop X P cell a key os acc \<sigma>) b) (\<sigma> b)"
proof (induction os arbitrary: acc \<sigma>)
  case Nil
  then show ?case by simp
next
  case (Cons orientation os)
  obtain r \<sigma>1 where s: "orientation_body X P cell a key orientation acc \<sigma> = (r, \<sigma>1)"
    by (cases "orientation_body X P cell a key orientation acc \<sigma>")
  have \<sigma>1: "\<sigma>1 = \<sigma>(a := snd (simulate_orientation X P cell orientation (\<sigma> a)))"
    using snd_orientation_body [of X P cell a key orientation acc \<sigma>] s by simp
  have st: "same_placement X (\<sigma>1 b) (\<sigma> b)"
    using simulate_orientation_stable [OF Cons.prems, of P orientation] by (simp add: \<sigma>1)
  have c: "cell_parameters (lattice (\<sigma>1 a)) = cell"
    using simulate_orientation_cell [OF Cons.prems(2), of X P orientation] by (simp add: \<sigma>1)
  show ?case
  proof (cases r)
    case (Inl err)
    with s st show ?thesis by simp
  next
    case (Inr acc')
    with s have "orientation_loop X P cell a key (orientation # os) acc \<sigma>
        = orientation_loop X P cell a key os acc' \<sigma>1" by simp
    moreover have "same_placement X (snd (orientation_loop X P cell a key os acc' \<sigma>1) b) (\<sigma>1 b)"
      using Cons.prems(1) c by (rule Cons.IH)
    ultimately show ?thesis using st by (auto intro: same_placement_trans)
  qed
qed

lemma phase_body_stable:
  "placement_stable X \<Longrightarrow> same_placement X (snd (phase_body X P item lib \<sigma>) b) (\<sigma> b)"
proof -
  assume st: "placement_stable X"
  obtain key a os where item: "item = (key, a, os)" by (cases item)
  let ?cell = "cell_parameters (lattice (\<sigma> a))"
  have "snd (phase_body X P item lib \<sigma>) = snd (orientation_loop X P ?cell a key os (Map.empty, lib) \<sigma>)"
    unfolding item by (auto simp: phase_body_def Let_def split: prod.splits sum.splits)
  moreover have "same_placement X (snd (orientation_loop X P ?cell a key os (Map.empty, lib) \<sigma>) b) (\<sigma> b)"
    using st refl by (rule orientation_loop_stable)
  ultimately show ?thesis by simp
qed

lemma phase_loop_stable:
  "placement_stable X \<Longrightarrow> same_placement X (snd (phase_loop X P its lib \<sigma>) b) (\<sigma> b)"
proof (induction its arbitrary: lib \<sigma>)
  case Nil
  then show ?case by simp
next
  case (Cons item its)
  obtain r \<sigma>1 where s: "phase_body X P item lib \<sigma> = (r, \<sigma>1)"
    by (cases "phase_body X P item lib \<sigma>")
  have st: "same_placement X (\<sigma>1 b) (\<sigma> b)"
    using phase_body_stable [OF Cons.prems, of P item lib \<sigma> b] s by simp
  show ?case
  proof (cases r)
    case (Inl err)
    with s st show ?thesis by simp
  next
    case (Inr lib')
    with s have "phase_loop X P (item # its) lib \<sigma> = phase_loop X P its lib' \<sigma>1" by simp
    moreover have "same_placement X (snd (phase_loop X P its lib' \<sigma>1) b) (\<sigma>1 b)"
      using Cons.prems by (rule Cons.IH)
    ultimately show ?thesis using st by (auto intro: same_placement_trans)
  qed
qed

subsection \<open>Rounding, norms and the records of a library\<close>

lemma rint_integral: "rint x \<in> \<int>"
  by (simp add: rint_def Let_def)

lemma rint_nearest: "\<bar>rint x - x\<bar> \<le> 1 / 2"
proof -
  have "of_int \<lfloor>x\<rfloor> \<le> x" "x < of_int \<lfloor>x\<rfloor> + 1" by linarith+
  then show ?thesis by (auto simp: rint_def Let_def)
qed

lemma astype_int_of_int [simp]: "astype_int (of_int k) = k"
  by (simp add: astype_int_def)

lemma astype_int_rint: "real_of_int (astype_int (rint x)) = rint x"
proof -
  from rint_integral [of x] obtain k where "rint x = of_int k" by (auto elim: Ints_cases)
  then show ?thesis by simp
qed

lemma rint_nearest2: "\<bar>rint x - x\<bar> * 2 \<le> 1"
  using rint_nearest [of x] by simp

lemma dot_self: "dot xs xs = (\<Sum>x\<leftarrow>xs. x\<^sup>2)"
  by (induction xs) (simp_all add: dot_def power2_eq_square)

lemma dot_self_nonneg: "0 \<le> dot xs xs"
  unfolding dot_self by (induction xs) simp_all

lemma pixel_coordinates_nearest:
  "list_all2 (\<lambda>row px.
       real_of_int (fst px) = rint (fst row + fst hs) \<and> real_of_int (snd px) = rint (fst (snd row) + snd hs) \<and>
       \<bar>real_of_int (fst px) - (fst row + fst hs)\<bar> \<le> 1 / 2 \<and>
       \<bar>real_of_int (snd px) - (fst (snd row) + snd hs)\<bar> \<le> 1 / 2)
     cc (pixel_coordinates cc hs)"
  unfolding pixel_coordinates_def
  by (induction cc) (auto simp: astype_int_rint rint_nearest2)

lemma simulate_orientation_produced:
  "simulate_orientation X P cell orientation s = (Inr data, s') \<Longrightarrow> get_intensities X data \<noteq> [] \<Longrightarrow>
   produced X P (make_record X P data)"
  by (auto simp: simulate_orientation_def Let_def produced_def split: sum.splits)


lemma orientation_body_produced:
  assumes "orientation_body X P cell a key orientation (pdl0, lib0) \<sigma> = (Inr (pdl, lib), \<sigma>')"
    and "inv_pdl X P pdl0" and "inv_lib X P lib0"
  shows "inv_pdl X P pdl \<and> inv_lib X P lib"
proof -
  from orientation_body_Inr [OF assms(1)] obtain data s'
    where sim: "simulate_orientation X P cell orientation (\<sigma> a) = (Inr data, s')"
      and upd: "if get_intensities X data \<noteq> []
        then pdl = pdl0(orientation \<mapsto> make_record X P data) \<and> lib = lib0(key \<mapsto> pdl)
        else pdl = pdl0 \<and> lib = lib0"
    by blast
  show ?thesis
  proof (cases "get_intensities X data \<noteq> []")
    case True
    from simulate_orientation_produced [OF sim True] upd True assms(2,3)
    show ?thesis by (auto simp: inv_pdl_def inv_lib_def)
  next
    case False
    with upd assms(2,3) show ?thesis by simp
  qed
qed

lemma orientation_loop_produced:
  "orientation_loop X P cell a key os (pdl0, lib0) \<sigma> = (Inr (pdl, lib), \<sigma>') \<Longrightarrow>
   inv_pdl X P pdl0 \<Longrightarrow> inv_lib X P lib0 \<Longrightarrow> inv_pdl X P pdl \<and> inv_lib X P lib"
proof (induction os arbitrary: pdl0 lib0 \<sigma>)
  case Nil
  then show ?case by simp
next
  case (Cons orientation os)
  obtain r1 \<sigma>1 where b: "orientation_body X P cell a key orientation (pdl0, lib0) \<sigma> = (r1, \<sigma>1)"
    by (cases "orientation_body X P cell a key orientation (pdl0, lib0) \<sigma>")
  with Cons.prems obtain pdl1 lib1 where r1: "r1 = Inr (pdl1, lib1)"
    and l: "orientation_loop X P cell a key os (pdl1, lib1) \<sigma>1 = (Inr (pdl, lib), \<sigma>')"
    by (cases r1) auto
  from orientation_body_produced [OF b [unfolded r1] Cons.prems(2,3)]
  have "inv_pdl X P pdl1" "inv_lib X P lib1" by simp_all
  with l show ?case by (rule Cons.IH)
qed

lemma phase_loop_produced:
  "phase_loop X P its lib0 \<sigma> = (Inr lib, \<sigma>') \<Longrightarrow> inv_lib X P lib0 \<Longrightarrow> inv_lib X P lib"
proof (induction its arbitrary: lib0 \<sigma>)
  case Nil
  then show ?case by simp
next
  case (Cons item its)
  obtain key a os where item: "item = (key, a, os)" by (cases item)
  obtain r1 \<sigma>1 where b: "phase_body X P (key, a, os) lib0 \<sigma> = (r1, \<sigma>1)"
    by (cases "phase_body X P (key, a, os) lib0 \<sigma>")
  with Cons.prems item obtain lib1 where r1: "r1 = Inr lib1"
    and l: "phase_loop X P its lib1 \<sigma>1 = (Inr lib, \<sigma>')"
    by (cases r1) auto
  from b r1 obtain pdl where "orientation_loop X P (cell_parameters (lattice (\<sigma> a))) a key os (Map.empty, lib0) \<sigma>
      = (Inr (pdl, lib1), \<sigma>1)"
    by (auto simp: phase_body_def Let_def split: sum.splits prod.splits)
  from orientation_loop_produced [OF this _ Cons.prems(2)] have "inv_lib X P lib1"
    by (simp add: inv_pdl_def)
  with l show ?case by (rule Cons.IH)
qed

lemma retained_record_produced:
  assumes "get_diffraction_library X SL cal rr hs wdb \<sigma> = (Inr lib, \<sigma>')"
    and "lib_dict lib key = Some sub" and "sub orientation = Some r"
  shows "produced X (call_args cal rr hs wdb) r"
proof -
  from get_diffraction_library_Inr [OF assms(1)]
  have "phase_loop X (call_args cal rr hs wdb) (items (struct_lib SL)) Map.empty \<sigma> = (Inr (lib_dict lib), \<sigma>')"
    by simp
  from phase_loop_produced [OF this] have "inv_lib X (call_args cal rr hs wdb) (lib_dict lib)"
    by (simp add: inv_lib_def)
  with assms(2,3) show ?thesis by (auto simp: inv_lib_def inv_pdl_def)
qed

subsection \<open>Further facts about the simulations and the errors of a run\<close>

lemma set_phase_log: "set (phase_log k lg) = {e. (k, e) \<in> set lg}"
  by (auto simp: phase_log_def image_iff)

lemma set_retained:
  "set (retained X lg) = {e \<in> set lg. get_intensities X (snd (snd e)) \<noteq> []}"
  by (auto simp: retained_def)

lemma dom_map_of_rev_records: "dom (map_of (rev (records X P lg))) = fst ` set lg"
proof -
  have "fst ` set (records X P lg) = fst ` set lg"
    by (induction lg) (auto simp: records_def)
  then show ?thesis by (simp add: dom_map_of_conv_image_fst)
qed

lemma records_eq_Nil [simp]: "records X P lg = [] \<longleftrightarrow> lg = []"
  by (simp add: records_def)

lemma map_of_rev_last:
  assumes "k \<notin> fst ` set ys"
  shows "map_of (rev (xs @ (k, v) # ys)) k = Some v"
proof -
  from assms have "map_of (rev ys) k = None" by (simp add: map_of_eq_None_iff)
  then show ?thesis by (simp add: map_add_def)
qed

lemma records_append [simp]: "records X P (xs @ ys) = records X P xs @ records X P ys"
  by (simp add: records_def)

lemma records_Cons [simp]:
  "records X P ((orientation, s, data) # ys) = (orientation, make_record X P data) # records X P ys"
  by (simp add: records_def)

lemma fst_set_records [simp]: "fst ` set (records X P lg) = fst ` set lg"
  by (induction lg) (auto simp: records_def)

lemma retained_split:
  assumes "lg = before @ (orientation, s, data) # after" and "get_intensities X data \<noteq> []"
  shows "retained X lg = retained X before @ (orientation, s, data) # retained X after"
  using assms by (simp add: retained_def)

lemma run_library:
  assumes "get_diffraction_library X SL cal rr hs wdb \<sigma> = (Inr lib, \<sigma>')"
    and "distinct (map fst (items (struct_lib SL)))"
  shows "lib_dict lib key =
     (if retained X (phase_log key (run_log X SL cal rr hs wdb \<sigma>)) = [] then None
      else Some (map_of (rev (records X (call_args cal rr hs wdb)
                   (retained X (phase_log key (run_log X SL cal rr hs wdb \<sigma>)))))))"
proof -
  from get_diffraction_library_Inr [OF assms(1)]
  have "phase_loop X (call_args cal rr hs wdb) (items (struct_lib SL)) Map.empty \<sigma> = (Inr (lib_dict lib), \<sigma>')"
    by simp
  from phase_loop_log [OF this assms(2), of key] show ?thesis by (simp add: run_log_def)
qed

lemma orientation_log_lattice:
  "(orientation, s, data) \<in> set (orientation_log X P cell os s0) \<Longrightarrow>
   orientation \<in> set os \<and> latt_rot X cell orientation = Inr (lattice s)"
proof (induction os arbitrary: s0)
  case Nil
  then show ?case by simp
next
  case (Cons o1 os)
  obtain r1 s1 where sim: "simulate_orientation X P cell o1 s0 = (r1, s1)"
    by (cases "simulate_orientation X P cell o1 s0")
  show ?case
  proof (cases r1)
    case (Inl err)
    with sim Cons.prems show ?thesis by simp
  next
    case (Inr d1)
    with sim Cons.prems have "(orientation, s, data) = (o1, s1, d1) \<or>
        (orientation, s, data) \<in> set (orientation_log X P cell os s1)" by simp
    then show ?thesis
    proof
      assume "(orientation, s, data) = (o1, s1, d1)"
      with simulate_orientation_Inr [OF sim [unfolded Inr]] show ?thesis by auto
    next
      assume "(orientation, s, data) \<in> set (orientation_log X P cell os s1)"
      from Cons.IH [OF this] show ?thesis by simp
    qed
  qed
qed

lemma ed_log_lattice:
  "(key, orientation, s, data) \<in> set (ed_log X P its lib \<sigma>) \<Longrightarrow>
   \<exists>a os. (key, a, os) \<in> set its \<and> orientation \<in> set os \<and>
     latt_rot X (cell_parameters (lattice (\<sigma> a))) orientation = Inr (lattice s)"
proof (induction its arbitrary: lib \<sigma>)
  case Nil
  then show ?case by simp
next
  case (Cons item its)
  obtain k1 a1 os1 where item: "item = (k1, a1, os1)" by (cases item)
  obtain r1 \<sigma>1 where b: "phase_body X P (k1, a1, os1) lib \<sigma> = (r1, \<sigma>1)"
    by (cases "phase_body X P (k1, a1, os1) lib \<sigma>")
  let ?olg = "orientation_log X P (cell_parameters (lattice (\<sigma> a1))) os1 (\<sigma> a1)"
  from Cons.prems item b
  consider "key = k1" "(orientation, s, data) \<in> set ?olg"
    | lib1 where "r1 = Inr lib1" "(key, orientation, s, data) \<in> set (ed_log X P its lib1 \<sigma>1)"
    by (cases r1) auto
  then show ?case
  proof cases
    case 1
    with orientation_log_lattice [OF 1(2)] item show ?thesis by auto
  next
    case 2
    from Cons.IH [OF 2(2)] obtain a os where "(key, a, os) \<in> set its" "orientation \<in> set os"
      "latt_rot X (cell_parameters (lattice (\<sigma>1 a))) orientation = Inr (lattice s)"
      by blast
    moreover have "cell_parameters (lattice (\<sigma>1 a)) = cell_parameters (lattice (\<sigma> a))"
      using b by (rule phase_body_cell)
    ultimately show ?thesis by auto
  qed
qed

lemma latt_rot_error: "latt_rot X cell orientation = Inl err \<Longrightarrow> err = IndexError"
  by (cases cell) (simp add: latt_rot_def Let_def split: if_splits)

lemma simulate_orientation_error:
  assumes "simulate_orientation X P cell orientation s = (Inl err, s')"
  shows "err = IndexError \<or> (\<exists>e. err = Raised e)"
proof (cases "latt_rot X cell orientation")
  case (Inl err1)
  with assms latt_rot_error [OF Inl] show ?thesis by (simp add: simulate_orientation_def)
next
  case (Inr L)
  show ?thesis
  proof (cases "calculate_ed_data X (placeInLattice X L s) (reciprocal_radius P) (with_direct_beam P)")
    case (Inl e)
    with Inr assms show ?thesis by (auto simp: simulate_orientation_def Let_def)
  next
    case (Inr data)
    with \<open>latt_rot X cell orientation = Inr L\<close> assms show ?thesis
      by (simp add: simulate_orientation_def Let_def)
  qed
qed

lemma orientation_body_Inl:
  assumes "orientation_body X P cell a key orientation acc \<sigma> = (Inl err, \<sigma>')"
  shows "\<exists>s'. simulate_orientation X P cell orientation (\<sigma> a) = (Inl err, s')"
proof -
  obtain r s' where sim: "simulate_orientation X P cell orientation (\<sigma> a) = (r, s')"
    by (cases "simulate_orientation X P cell orientation (\<sigma> a)")
  obtain pdl lib where acc: "acc = (pdl, lib)" by (cases acc)
  show ?thesis
  proof (cases r)
    case (Inl err1)
    with sim acc assms show ?thesis by (simp add: orientation_body_def)
  next
    case (Inr data)
    with sim acc assms show ?thesis by (simp add: orientation_body_def Let_def split: if_splits)
  qed
qed

lemma orientation_loop_error:
  "orientation_loop X P cell a key os acc \<sigma> = (Inl err, \<sigma>') \<Longrightarrow> err = IndexError \<or> (\<exists>e. err = Raised e)"
proof (induction os arbitrary: acc \<sigma>)
  case Nil
  then show ?case by simp
next
  case (Cons orientation os)
  obtain r1 \<sigma>1 where b: "orientation_body X P cell a key orientation acc \<sigma> = (r1, \<sigma>1)"
    by (cases "orientation_body X P cell a key orientation acc \<sigma>")
  show ?case
  proof (cases r1)
    case (Inl err1)
    with b Cons.prems have "err1 = err" by simp
    moreover from orientation_body_Inl [OF b [unfolded Inl]]
    obtain s' where "simulate_orientation X P cell orientation (\<sigma> a) = (Inl err1, s')" by blast
    ultimately show ?thesis using simulate_orientation_error [of X P cell orientation "\<sigma> a" err1 s'] by simp
  next
    case (Inr acc')
    with b Cons.prems have "orientation_loop X P cell a key os acc' \<sigma>1 = (Inl err, \<sigma>')" by simp
    then show ?thesis by (rule Cons.IH)
  qed
qed

lemma phase_loop_error:
  "phase_loop X P its lib \<sigma> = (Inl err, \<sigma>') \<Longrightarrow> err = IndexError \<or> (\<exists>e. err = Raised e)"
proof (induction its arbitrary: lib \<sigma>)
  case Nil
  then show ?case by simp
next
  case (Cons item its)
  obtain key a os where item: "item = (key, a, os)" by (cases item)
  obtain r1 \<sigma>1 where b: "phase_body X P (key, a, os) lib \<sigma> = (r1, \<sigma>1)"
    by (cases "phase_body X P (key, a, os) lib \<sigma>")
  show ?case
  proof (cases r1)
    case (Inl err1)
    with b item Cons.prems have "err1 = err" by simp
    moreover have "\<exists>\<sigma>2. orientation_loop X P (cell_parameters (lattice (\<sigma> a))) a key os (Map.empty, lib) \<sigma>
        = (Inl err1, \<sigma>2)"
    proof (cases "orientation_loop X P (cell_parameters (lattice (\<sigma> a))) a key os (Map.empty, lib) \<sigma>")
      case (Pair r2 \<sigma>2)
      with b Inl show ?thesis
        by (cases r2) (auto simp: phase_body_def Let_def split: prod.splits)
    qed
    ultimately show ?thesis by (auto dest: orientation_loop_error)
  next
    case (Inr lib1)
    with b item Cons.prems have "phase_loop X P its lib1 \<sigma>1 = (Inl err, \<sigma>')" by simp
    then show ?thesis by (rule Cons.IH)
  qed
qed

lemma loops_completed:
  assumes "get_diffraction_library X SL cal rr hs wdb \<sigma> = (r, \<sigma>')"
    and "r \<noteq> Inl IndexError" and "\<forall>e. r \<noteq> Inl (Raised e)"
  shows "\<exists>m. phase_loop X (call_args cal rr hs wdb) (items (struct_lib SL)) Map.empty \<sigma> = (Inr m, \<sigma>')"
proof -
  let ?P = "call_args cal rr hs wdb"
  obtain r1 \<sigma>1 where l: "phase_loop X ?P (items (struct_lib SL)) Map.empty \<sigma> = (r1, \<sigma>1)"
    by (cases "phase_loop X ?P (items (struct_lib SL)) Map.empty \<sigma>")
  have s: "\<sigma>1 = \<sigma>'"
    using snd_get_diffraction_library [of X SL cal rr hs wdb \<sigma>] l assms(1) by simp
  show ?thesis
  proof (cases r1)
    case (Inl err)
    with l assms(1) have "r = Inl err" by (simp add: get_diffraction_library_def)
    with phase_loop_error [OF l [unfolded Inl]] assms(2,3) show ?thesis by auto
  next
    case (Inr m)
    with l s show ?thesis by simp
  qed
qed

lemma pair_loop_in_range:
  "pair_loop G I C D combs pv = Inr r \<Longrightarrow> comb \<in> set combs \<Longrightarrow>
   fst comb < length C \<and> snd comb < length C \<and> fst comb < length D \<and> snd comb < length D"
proof (induction combs arbitrary: pv)
  case Nil
  then show ?case by simp
next
  case (Cons c combs)
  from Cons.prems obtain pv' where b: "pair_body G I C D c pv = Inr pv'"
    and l: "pair_loop G I C D combs pv' = Inr r"
    by (auto split: sum.splits)
  from b have "fst c < length C \<and> snd c < length C \<and> fst c < length D \<and> snd c < length D"
    by (cases c) (simp add: pair_body_def getitem_def split: if_splits)
  with Cons.IH [OF l] Cons.prems(2) show ?case by auto
qed

section \<open>Evaluation in the concrete setting\<close>

lemma deg2rad_0 [simp]: "deg2rad 0 = 0"
  by (simp add: deg2rad_def)

lemma deg2rad_180 [simp]: "deg2rad 180 = pi"
  by (simp add: deg2rad_def)

lemma rzxz_000 [simp]: "rzxz 0 0 0 = [[1, 0, 0], [0, 1, 0], [0, 0, 1]]"
  by (simp add: rzxz_def)

lemma rzxz_pi00 [simp]: "rzxz pi 0 0 = [[- 1, 0, 0], [0, - 1, 0], [0, 0, 1]]"
  by (simp add: rzxz_def)

lemma rzxz_0pi0 [simp]: "rzxz 0 pi 0 = [[1, 0, 0], [0, - 1, 0], [0, 0, - 1]]"
  by (simp add: rzxz_def)

lemma rint_72 [simp]: "rint 72 = 72"
  by (simp add: rint_def)

lemma rint_105 [simp]: "rint (316 / 3) = 105"
  by (simp add: rint_def Let_def)

lemma astype_int_numeral [simp]: "astype_int (numeral n) = numeral n"
  by (simp add: astype_int_def)

lemma demo_get_intensities [simp]: "get_intensities demo_X (c, coords, ints) = ints"
  by (simp add: demo_X_def)

lemma demo_get_intensities_counting [simp]: "get_intensities demo_X_counting (c, coords, ints) = ints"
  by (simp add: demo_X_counting_def demo_X_def)

lemma demo_intensities_000 [simp]: "get_intensities demo_X (demo_data_000 n) = [1, 3 + of_nat n]"
  by (simp add: demo_data_000_def)

lemma demo_intensities_000_counting [simp]:
  "get_intensities demo_X_counting (demo_data_000 n) = [1, 3 + of_nat n]"
  by (simp add: demo_data_000_def)

lemma demo_latt_rot_000 [simp]:
  "latt_rot X (3, 3, 3, 90, 90, 90) [0, 0, 0] = Inr (Lattice 3 3 3 90 90 90 (euler2mat X 0 0 0))"
  by (simp add: latt_rot_def)

lemma demo_latt_rot_pi00 [simp]:
  "latt_rot X (3, 3, 3, 90, 90, 90) [180, 0, 0] = Inr (Lattice 3 3 3 90 90 90 (euler2mat X pi 0 0))"
  by (simp add: latt_rot_def)

lemma demo_latt_rot_0pi0 [simp]:
  "latt_rot X (3, 3, 3, 90, 90, 90) [0, 180, 0] = Inr (Lattice 3 3 3 90 90 90 (euler2mat X 0 pi 0))"
  by (simp add: latt_rot_def)

lemma demo_cell [simp]: "cell_parameters (lattice (demo_placed m n)) = (3, 3, 3, 90, 90, 90)"
  by (simp add: demo_placed_def)

lemma demo_structure_placed: "demo_structure = demo_placed [[1, 0, 0], [0, 1, 0], [0, 0, 1]] 0"
  by (simp add: demo_structure_def demo_placed_def)

lemma demo_sim_000:
  "simulate_orientation demo_X demo_args (3, 3, 3, 90, 90, 90) [0, 0, 0] (demo_placed m n)
     = (Inr (demo_data_000 n), demo_placed [[1, 0, 0], [0, 1, 0], [0, 0, 1]] n)"
  by (simp add: simulate_orientation_def placeInLattice_def demo_X_def demo_calculate_def
      demo_args_def call_args_def Lattice_def demo_placed_def demo_data_000_def)

lemma demo_sim_pi00:
  "simulate_orientation demo_X demo_args (3, 3, 3, 90, 90, 90) [180, 0, 0] (demo_placed m n)
     = (Inr (1 / 100, [], []), demo_placed [[- 1, 0, 0], [0, - 1, 0], [0, 0, 1]] n)"
  by (simp add: simulate_orientation_def placeInLattice_def demo_X_def demo_calculate_def
      demo_args_def call_args_def Lattice_def demo_placed_def)

lemma demo_sim_000_counting:
  "simulate_orientation demo_X_counting demo_args (3, 3, 3, 90, 90, 90) [0, 0, 0] (demo_placed m n)
     = (Inr (demo_data_000 (Suc n)), demo_placed [[1, 0, 0], [0, 1, 0], [0, 0, 1]] (Suc n))"
  by (simp add: simulate_orientation_def placeInLattice_def demo_X_counting_def demo_X_def
      demo_calculate_def demo_args_def call_args_def Lattice_def demo_placed_def demo_data_000_def)

lemma demo_sim_pi00_counting:
  "simulate_orientation demo_X_counting demo_args (3, 3, 3, 90, 90, 90) [180, 0, 0] (demo_placed m n)
     = (Inr (1 / 100, [], []), demo_placed [[- 1, 0, 0], [0, - 1, 0], [0, 0, 1]] (Suc n))"
  by (simp add: simulate_orientation_def placeInLattice_def demo_X_counting_def demo_X_def
      demo_calculate_def demo_args_def call_args_def Lattice_def demo_placed_def)

lemma demo_make_record: "make_record demo_X demo_args (demo_data_000 n) = demo_record n"
  by (simp add: make_record_def demo_X_def demo_args_def call_args_def pixel_coordinates_def
      demo_record_def demo_data_000_def Let_def)

lemma demo_make_record_counting: "make_record demo_X_counting demo_args (demo_data_000 n) = demo_record n"
  by (simp add: make_record_def demo_X_counting_def demo_X_def demo_args_def call_args_def
      pixel_coordinates_def demo_record_def demo_data_000_def Let_def)

lemma demo_run:
  "get_diffraction_library demo_X demo_library (1 / 100) 1 (72, 72) True demo_store
     = (Inr demo_result, demo_store_after)"
  by (simp add: get_diffraction_library_def demo_library_def phase_body_def orientation_body_def
      demo_store_def demo_structure_placed demo_sim_000 demo_sim_pi00 demo_make_record getattr_def
      demo_result_def demo_store_after_def Let_def demo_args_def [symmetric])

lemma demo_run_counting:
  "get_diffraction_library demo_X_counting demo_library (1 / 100) 1 (72, 72) True demo_store
     = (Inr demo_result_counting, demo_store_counting)"
  by (simp add: get_diffraction_library_def demo_library_def phase_body_def orientation_body_def
      demo_store_def demo_structure_placed demo_sim_000_counting demo_sim_pi00_counting
      demo_make_record_counting getattr_def demo_result_counting_def demo_store_counting_def Let_def
      demo_args_def [symmetric] eval_nat_numeral)

lemma demo_run_log:
  "run_log demo_X demo_library (1 / 100) 1 (72, 72) True demo_store =
     [(''A'', [0, 0, 0], demo_placed [[1, 0, 0], [0, 1, 0], [0, 0, 1]] 0, demo_data_000 0),
      (''A'', [180, 0, 0], demo_placed [[- 1, 0, 0], [0, - 1, 0], [0, 0, 1]] 0, (1 / 100, [], [])),
      (''A'', [0, 0, 0], demo_placed [[1, 0, 0], [0, 1, 0], [0, 0, 1]] 0, demo_data_000 0),
      (''B'', [180, 0, 0], demo_placed [[- 1, 0, 0], [0, - 1, 0], [0, 0, 1]] 0, (1 / 100, [], []))]"
  by (simp add: run_log_def demo_library_def phase_body_def orientation_body_def
      demo_store_def demo_structure_placed demo_sim_000 demo_sim_pi00 demo_make_record
      Let_def demo_args_def [symmetric])

lemma demo_run_log_counting:
  "run_log demo_X_counting demo_library (1 / 100) 1 (72, 72) True demo_store =
     [(''A'', [0, 0, 0], demo_placed [[1, 0, 0], [0, 1, 0], [0, 0, 1]] 1, demo_data_000 1),
      (''A'', [180, 0, 0], demo_placed [[- 1, 0, 0], [0, - 1, 0], [0, 0, 1]] 2, (1 / 100, [], [])),
      (''A'', [0, 0, 0], demo_placed [[1, 0, 0], [0, 1, 0], [0, 0, 1]] 3, demo_data_000 3),
      (''B'', [180, 0, 0], demo_placed [[- 1, 0, 0], [0, - 1, 0], [0, 0, 1]] 1, (1 / 100, [], []))]"
  by (simp add: run_log_def demo_library_def phase_body_def orientation_body_def
      demo_store_def demo_structure_placed demo_sim_000_counting demo_sim_pi00_counting
      demo_make_record_counting Let_def demo_args_def [symmetric] eval_nat_numeral)

lemma demo_run_shared:
  "get_diffraction_library demo_X demo_shared (1 / 100) 1 (72, 72) True demo_store
     = (Inr demo_shared_result, demo_shared_store_after)"
  by (simp add: get_diffraction_library_def demo_shared_def phase_body_def orientation_body_def
      demo_store_def demo_structure_placed demo_sim_000 demo_sim_pi00 demo_make_record getattr_def
      demo_shared_result_def demo_shared_store_after_def Let_def demo_args_def [symmetric])

lemma demo_distinct: "distinct (map fst (items (struct_lib demo_library)))"
  by (simp add: demo_library_def)

lemma demo_placement_stable: "placement_stable demo_X"
  by (simp add: placement_stable_def demo_X_def)

lemma arange_3: "arange (Suc (Suc (Suc 0))) = [0, Suc 0, Suc (Suc 0)]"
  by (simp add: arange_def)

lemma arange_1: "arange (Suc 0) = [0]"
  by (simp add: arange_def)

lemma demo_vector_run:
  "get_vector_library demo_G demo_library 1 demo_vector_store = Inr demo_vector_result"
  by (simp add: get_vector_library_def demo_library_def vector_phase_body_def demo_G_def
      demo_vector_store_def demo_store_def demo_structure_def Lattice_def arange_3 arange_1
      pair_body_def getitem_def getattr_def demo_vector_result_def Let_def)

lemma demo_get_intensities_fading [simp]: "get_intensities demo_X_fading (c, coords, ints) = ints"
  by (simp add: demo_X_fading_def demo_X_counting_def demo_X_def)

lemma demo_sim_fading_first:
  "simulate_orientation demo_X_fading demo_args (3, 3, 3, 90, 90, 90) [0, 0, 0] (demo_placed m 0)
     = (Inr demo_data_5, demo_placed [[1, 0, 0], [0, 1, 0], [0, 0, 1]] (Suc 0))"
  by (simp add: simulate_orientation_def placeInLattice_def demo_X_fading_def demo_X_counting_def
      demo_X_def demo_args_def call_args_def Lattice_def demo_placed_def demo_data_5_def)

lemma demo_sim_fading_later:
  "simulate_orientation demo_X_fading demo_args (3, 3, 3, 90, 90, 90) [0, 0, 0] (demo_placed m (Suc n))
     = (Inr (1 / 100, [], []), demo_placed [[1, 0, 0], [0, 1, 0], [0, 0, 1]] (Suc (Suc n)))"
  by (simp add: simulate_orientation_def placeInLattice_def demo_X_fading_def demo_X_counting_def
      demo_X_def demo_args_def call_args_def Lattice_def demo_placed_def)

lemma demo_make_record_fading: "make_record demo_X_fading demo_args demo_data_5 = demo_record_5"
  by (simp add: make_record_def demo_X_fading_def demo_X_counting_def demo_X_def demo_args_def
      call_args_def pixel_coordinates_def demo_record_5_def demo_data_5_def Let_def)

lemma demo_intensities_5 [simp]: "get_intensities demo_X_fading demo_data_5 = [5]"
  by (simp add: demo_data_5_def)

lemma demo_run_repeated:
  "get_diffraction_library demo_X_fading demo_repeated (1 / 100) 1 (72, 72) True demo_store
     = (Inr demo_repeated_result, demo_repeated_store_after)"
  by (simp add: get_diffraction_library_def demo_repeated_def phase_body_def orientation_body_def
      demo_store_def demo_structure_placed demo_sim_fading_first demo_sim_fading_later
      demo_make_record_fading getattr_def demo_repeated_result_def demo_repeated_store_after_def
      Let_def demo_args_def [symmetric] eval_nat_numeral)

lemma demo_run_log_repeated:
  "run_log demo_X_fading demo_repeated (1 / 100) 1 (72, 72) True demo_store =
     [(''A'', [0, 0, 0], demo_placed [[1, 0, 0], [0, 1, 0], [0, 0, 1]] 1, demo_data_5),
      (''A'', [0, 0, 0], demo_placed [[1, 0, 0], [0, 1, 0], [0, 0, 1]] 2, (1 / 100, [], []))]"
  by (simp add: run_log_def demo_repeated_def phase_body_def orientation_body_def
      demo_store_def demo_structure_placed demo_sim_fading_first demo_sim_fading_later
      demo_make_record_fading Let_def demo_args_def [symmetric] eval_nat_numeral)

lemma demo_rerun_counting:
  "get_diffraction_library demo_X_counting demo_library (1 / 100) 1 (72, 72) True demo_store_counting
     = (Inr demo_result_recounting, demo_store_recounting)"
  by (simp add: get_diffraction_library_def demo_library_def phase_body_def orientation_body_def
      demo_store_counting_def demo_sim_000_counting demo_sim_pi00_counting
      demo_make_record_counting getattr_def demo_result_recounting_def demo_store_recounting_def
      Let_def demo_args_def [symmetric] eval_nat_numeral)

lemma demo_get_intensities_basis [simp]: "get_intensities demo_X_basis (c, coords, ints) = ints"
  by (simp add: demo_X_basis_def)

lemma demo_intensities_000_basis [simp]:
  "get_intensities demo_X_basis (demo_data_000 n) = [1, 3 + of_nat n]"
  by (simp add: demo_data_000_def)

lemma demo_cell_basis [simp]:
  "cell_parameters (lattice (demo_basis_placed m ats)) = (3, 3, 3, 90, 90, 90)"
  by (simp add: demo_basis_placed_def)

lemma demo_sim_000_basis:
  "simulate_orientation demo_X_basis demo_args (3, 3, 3, 90, 90, 90) [0, 0, 0] (demo_basis_placed m ats)
     = (Inr (demo_data_000 0),
        demo_basis_placed [[1, 0, 0], [0, 1, 0], [0, 0, 1]] [[1, 0, 0], [0, 1, 0], [0, 0, 1]])"
  by (simp add: simulate_orientation_def placeInLattice_def demo_X_basis_def demo_args_def
      call_args_def Lattice_def demo_basis_placed_def demo_data_000_def)

lemma demo_sim_pi00_basis:
  "simulate_orientation demo_X_basis demo_args (3, 3, 3, 90, 90, 90) [180, 0, 0] (demo_basis_placed m ats)
     = (Inr (1 / 100, [], []),
        demo_basis_placed [[- 1, 0, 0], [0, - 1, 0], [0, 0, 1]] [[- 1, 0, 0], [0, - 1, 0], [0, 0, 1]])"
  by (simp add: simulate_orientation_def placeInLattice_def demo_X_basis_def demo_args_def
      call_args_def Lattice_def demo_basis_placed_def)

lemma demo_make_record_basis: "make_record demo_X_basis demo_args (demo_data_000 n) = demo_record n"
  by (simp add: make_record_def demo_X_basis_def demo_args_def call_args_def pixel_coordinates_def
      demo_record_def demo_data_000_def Let_def)

lemma demo_run_basis:
  "get_diffraction_library demo_X_basis demo_library (1 / 100) 1 (72, 72) True demo_basis_store
     = (Inr demo_result, demo_basis_store_after)"
  by (simp add: get_diffraction_library_def demo_library_def phase_body_def orientation_body_def
      demo_basis_store_def demo_sim_000_basis demo_sim_pi00_basis demo_make_record_basis getattr_def
      demo_result_def demo_basis_store_after_def Let_def demo_args_def [symmetric])

lemma demo_placement_stable_basis: "placement_stable demo_X_basis"
  by (simp add: placement_stable_def demo_X_basis_def)

section \<open>The index pairs\<close>

lemma combinations2_arange: "combinations2 (arange n) = index_pairs n"
  by (simp add: arange_def index_pairs_def combinations2_upt)

lemma length_index_pairs: "length (index_pairs n) = n * (n - 1) div 2"
  unfolding combinations2_arange [symmetric] by (simp add: length_combinations2 arange_def)

lemma set_index_pairs: "set (index_pairs n) = {(i, j). i < j \<and> j < n}"
  using set_combinations2_arange [of n] by (simp add: combinations2_arange)

lemma sorted_index_pairs: "sorted_wrt lex_less (index_pairs n)"
proof -
  have "(\<lambda>(i, j) (i', j'). i < i' \<or> (i = i' \<and> j < j')) = lex_less"
    by (auto simp: lex_less_def fun_eq_iff)
  with sorted_combinations2_arange [of n] show ?thesis by (simp add: combinations2_arange)
qed

lemma sorted_wrt_irrefl_distinct: "sorted_wrt R xs \<Longrightarrow> \<forall>x. \<not> R x x \<Longrightarrow> distinct xs"
  by (induction xs) auto

lemma distinct_index_pairs: "distinct (index_pairs n)"
  using sorted_index_pairs by (rule sorted_wrt_irrefl_distinct) (simp add: lex_less_def)

lemma index_pairs_small: "n < 2 \<Longrightarrow> index_pairs n = []"
  using length_index_pairs [of n] by (cases n) auto

lemma vector_phase_loop_in_range:
  "vector_phase_loop G rr \<sigma> its m = Inr m' \<Longrightarrow> (key, a, os) \<in> set its \<Longrightarrow>
   get_points_in_sphere G (reciprocal G (lattice (\<sigma> a))) rr = (I, C, D) \<Longrightarrow>
   p \<in> set (index_pairs (length I)) \<Longrightarrow>
   fst p < length C \<and> snd p < length C \<and> fst p < length D \<and> snd p < length D"
proof (induction its arbitrary: m)
  case Nil
  then show ?case by simp
next
  case (Cons item its)
  from Cons.prems obtain m1 where b: "vector_phase_body G rr \<sigma> item m = Inr m1"
    and l: "vector_phase_loop G rr \<sigma> its m1 = Inr m'"
    by (auto split: sum.splits)
  show ?case
  proof (cases "item = (key, a, os)")
    case True
    with b Cons.prems(3) obtain r where "pair_loop G I C D (combinations2 (arange (length I))) [] = Inr r"
      by (auto simp: vector_phase_body_def Let_def split: sum.splits)
    from pair_loop_in_range [OF this, of p] Cons.prems(4) show ?thesis
      by (simp add: combinations2_arange)
  next
    case False
    with Cons.prems have "(key, a, os) \<in> set its" by simp
    from Cons.IH [OF l this Cons.prems(3,4)] show ?thesis .
  qed
qed

section \<open>The simulations with reflections\<close>

lemma mem_retained_phase_log:
  "(orientation, s, data) \<in> set (retained X (phase_log key lg)) \<longleftrightarrow>
   (key, orientation, s, data) \<in> set lg \<and> get_intensities X data \<noteq> []"
  by (auto simp: set_retained set_phase_log)

lemma retained_nonempty_iff:
  "retained X (phase_log key lg) \<noteq> [] \<longleftrightarrow>
   (\<exists>orientation s data. (key, orientation, s, data) \<in> set lg \<and> get_intensities X data \<noteq> [])"
proof -
  have "retained X (phase_log key lg) \<noteq> [] \<longleftrightarrow> (\<exists>e. e \<in> set (retained X (phase_log key lg)))"
    by (cases "retained X (phase_log key lg)") auto
  also have "\<dots> \<longleftrightarrow> (\<exists>orientation s data. (orientation, s, data) \<in> set (retained X (phase_log key lg)))"
    by auto
  finally show ?thesis by (simp only: mem_retained_phase_log)
qed

lemma fst_image_retained_iff:
  "orientation \<in> fst ` set (retained X (phase_log key lg)) \<longleftrightarrow>
   (\<exists>s data. (key, orientation, s, data) \<in> set lg \<and> get_intensities X data \<noteq> [])"
proof -
  have "orientation \<in> fst ` set (retained X (phase_log key lg)) \<longleftrightarrow>
      (\<exists>s data. (orientation, s, data) \<in> set (retained X (phase_log key lg)))"
    by force
  then show ?thesis by (simp only: mem_retained_phase_log)
qed

section \<open>The calls return\<close>

lemma simulate_orientation_returns:
  assumes "3 \<le> length orientation" and "never_raises X P"
  shows "\<exists>data s'. simulate_orientation X P cell orientation s = (Inr data, s')"
proof -
  from assms(1) latt_rot_cases [of X cell orientation] obtain L
    where L: "latt_rot X cell orientation = Inr L"
    by auto
  from assms(2) obtain data
    where "calculate_ed_data X (placeInLattice X L s) (reciprocal_radius P) (with_direct_beam P) = Inr data"
    unfolding never_raises_def by blast
  with L show ?thesis by (simp add: simulate_orientation_def)
qed

lemma orientation_body_returns:
  assumes "3 \<le> length orientation" and "never_raises X P"
  shows "\<exists>acc' \<sigma>'. orientation_body X P cell a key orientation acc \<sigma> = (Inr acc', \<sigma>')"
proof -
  from simulate_orientation_returns [OF assms, of cell "\<sigma> a"] obtain data s'
    where "simulate_orientation X P cell orientation (\<sigma> a) = (Inr data, s')"
    by blast
  then show ?thesis
    by (cases acc) (simp add: orientation_body_def Let_def)
qed

lemma orientation_loop_returns:
  "\<forall>orientation \<in> set os. 3 \<le> length orientation \<Longrightarrow> never_raises X P \<Longrightarrow>
   \<exists>acc' \<sigma>'. orientation_loop X P cell a key os acc \<sigma> = (Inr acc', \<sigma>')"
proof (induction os arbitrary: acc \<sigma>)
  case Nil
  then show ?case by simp
next
  case (Cons orientation os)
  from Cons.prems have "3 \<le> length orientation" by simp
  from orientation_body_returns [OF this Cons.prems(2), of cell a key acc \<sigma>] obtain acc1 \<sigma>1
    where b: "orientation_body X P cell a key orientation acc \<sigma> = (Inr acc1, \<sigma>1)"
    by blast
  from Cons.prems have "\<forall>orientation \<in> set os. 3 \<le> length orientation" by simp
  from Cons.IH [OF this Cons.prems(2), of acc1 \<sigma>1] b show ?case by simp
qed

lemma phase_body_returns:
  assumes "\<forall>orientation \<in> set (snd (snd item)). 3 \<le> length orientation" and "never_raises X P"
  shows "\<exists>lib' \<sigma>'. phase_body X P item lib \<sigma> = (Inr lib', \<sigma>')"
proof -
  obtain key a os where item: "item = (key, a, os)" by (cases item)
  with assms(1) have "\<forall>orientation \<in> set os. 3 \<le> length orientation" by simp
  from orientation_loop_returns [OF this assms(2),
      of "cell_parameters (lattice (\<sigma> a))" a key "(Map.empty, lib)" \<sigma>]
  obtain acc' \<sigma>' where "orientation_loop X P (cell_parameters (lattice (\<sigma> a))) a key os
      (Map.empty, lib) \<sigma> = (Inr acc', \<sigma>')"
    by blast
  then show ?thesis unfolding item by (cases acc') (simp add: phase_body_def Let_def)
qed

lemma phase_loop_returns:
  "well_formed_orientations its \<Longrightarrow> never_raises X P \<Longrightarrow>
   \<exists>lib' \<sigma>'. phase_loop X P its lib \<sigma> = (Inr lib', \<sigma>')"
proof (induction its arbitrary: lib \<sigma>)
  case Nil
  then show ?case by simp
next
  case (Cons item its)
  from Cons.prems(1) have i: "\<forall>orientation \<in> set (snd (snd item)). 3 \<le> length orientation"
    and r: "well_formed_orientations its"
    by (simp_all add: well_formed_orientations_def)
  from phase_body_returns [OF i Cons.prems(2), of lib \<sigma>] obtain lib1 \<sigma>1
    where b: "phase_body X P item lib \<sigma> = (Inr lib1, \<sigma>1)"
    by blast
  from Cons.IH [OF r Cons.prems(2), of lib1 \<sigma>1] b show ?case by simp
qed

text \<open>
  \<^verbatim>\<open>get_diffraction_library\<close> returns a library when every orientation has three angles,
  the calculator does not raise and the two attributes are there; whether a simulation
  has reflections plays no role. \<^verbatim>\<open>get_vector_library\<close> returns a library when the
  sequences of the points have the same length and the two attributes are there.
\<close>

lemma get_diffraction_library_returns:
  assumes "well_formed_orientations (items (struct_lib SL))"
    and "never_raises X (call_args cal rr hs wdb)"
    and "attrs (struct_lib SL) ''indentifiers'' = Some ids"
    and "attrs (struct_lib SL) ''structures'' = Some strs"
  shows "\<exists>m \<sigma>'. get_diffraction_library X SL cal rr hs wdb \<sigma>
           = (Inr \<lparr>lib_dict = m, identifiers = ids, structures = strs\<rparr>, \<sigma>')"
proof -
  from phase_loop_returns [OF assms(1,2), of Map.empty \<sigma>] obtain m \<sigma>'
    where "phase_loop X (call_args cal rr hs wdb) (items (struct_lib SL)) Map.empty \<sigma> = (Inr m, \<sigma>')"
    by blast
  from get_diffraction_library_total [OF this assms(3,4)] show ?thesis by blast
qed

text \<open>
  On a \<^verbatim>\<open>struct_lib\<close> object without the attribute \<^verbatim>\<open>indentifiers\<close> (a plain dictionary, for
  one) both generators raise \<^verbatim>\<open>AttributeError\<close> once their loops are done.
\<close>

lemma get_diffraction_library_missing_attribute:
  assumes "phase_loop X (call_args cal rr hs wdb) (items (struct_lib SL)) Map.empty \<sigma> = (Inr m, \<sigma>')"
    and "attrs (struct_lib SL) ''indentifiers'' = None"
  shows "get_diffraction_library X SL cal rr hs wdb \<sigma> = (Inl (AttributeError ''indentifiers''), \<sigma>')"
  using assms by (simp add: get_diffraction_library_def Let_def getattr_def)

lemma get_vector_library_missing_attribute:
  assumes "vector_phase_loop G rr \<sigma> (items (struct_lib SL)) Map.empty = Inr m"
    and "attrs (struct_lib SL) ''indentifiers'' = None"
  shows "get_vector_library G SL rr \<sigma> = Inl (AttributeError ''indentifiers'')"
  using assms by (simp add: get_vector_library_def Let_def getattr_def)

lemma get_vector_library_returns:
  assumes "\<forall>item \<in> set (items (struct_lib SL)). parallel_points G rr \<sigma> (fst (snd item))"
    and "attrs (struct_lib SL) ''indentifiers'' = Some ids"
    and "attrs (struct_lib SL) ''structures'' = Some strs"
  shows "\<exists>m. get_vector_library G SL rr \<sigma> = Inr \<lparr>lib_dict = m, identifiers = ids, structures = strs\<rparr>"
proof -
  from vector_phase_loop_total [OF assms(1), of Map.empty] obtain m
    where "vector_phase_loop G rr \<sigma> (items (struct_lib SL)) Map.empty = Inr m"
    by blast
  from get_vector_library_total [OF this assms(2,3)] show ?thesis by blast
qed

text \<open>
  What a returned library carries as \<^verbatim>\<open>identifiers\<close> and \<^verbatim>\<open>structures\<close> are the attributes
  \<^verbatim>\<open>indentifiers\<close> and \<^verbatim>\<open>structures\<close> of the \<^verbatim>\<open>struct_lib\<close> object.
\<close>

lemma attributes_read_from_struct_lib:
  "(get_diffraction_library X SL cal rr hs wdb \<sigma> = (Inr lib, \<sigma>') \<longrightarrow>
      attrs (struct_lib SL) ''indentifiers'' = Some (identifiers lib) \<and>
      attrs (struct_lib SL) ''structures'' = Some (structures lib)) \<and>
   (get_vector_library G SL rr' \<tau> = Inr vlib \<longrightarrow>
      attrs (struct_lib SL) ''indentifiers'' = Some (identifiers vlib) \<and>
      attrs (struct_lib SL) ''structures'' = Some (structures vlib))"
  using get_diffraction_library_Inr [of X SL cal rr hs wdb \<sigma> lib \<sigma>']
    get_vector_library_Inr [of G SL rr' \<tau> vlib]
  by blast

text \<open>The generators on the libraries with other attributes.\<close>

lemma demo_phase_loop:
  "phase_loop demo_X (call_args (1 / 100) 1 (72, 72) True) (items (struct_lib demo_library))
     Map.empty demo_store = (Inr (lib_dict demo_result), demo_store_after)"
  using get_diffraction_library_Inr [OF demo_run] by simp

lemma demo_vector_phase_loop:
  "vector_phase_loop demo_G 1 demo_vector_store (items (struct_lib demo_library)) Map.empty
     = Inr (lib_dict demo_vector_result)"
  using get_vector_library_Inr [OF demo_vector_run] by simp

lemma demo_run_plain:
  "get_diffraction_library demo_X demo_plain (1 / 100) 1 (72, 72) True demo_store
     = (Inl (AttributeError ''indentifiers''), demo_store_after)"
proof -
  have i: "items (struct_lib demo_plain) = items (struct_lib demo_library)"
    by (simp add: demo_plain_def)
  have a: "attrs (struct_lib demo_plain) ''indentifiers'' = None"
    by (simp add: demo_plain_def)
  from demo_phase_loop
  have "phase_loop demo_X (call_args (1 / 100) 1 (72, 72) True) (items (struct_lib demo_plain))
      Map.empty demo_store = (Inr (lib_dict demo_result), demo_store_after)"
    by (simp only: i)
  from get_diffraction_library_missing_attribute [OF this a] show ?thesis .
qed

lemma demo_vector_run_plain:
  "get_vector_library demo_G demo_plain 1 demo_vector_store = Inl (AttributeError ''indentifiers'')"
proof -
  have i: "items (struct_lib demo_plain) = items (struct_lib demo_library)"
    by (simp add: demo_plain_def)
  have a: "attrs (struct_lib demo_plain) ''indentifiers'' = None"
    by (simp add: demo_plain_def)
  from demo_vector_phase_loop
  have "vector_phase_loop demo_G 1 demo_vector_store (items (struct_lib demo_plain)) Map.empty
      = Inr (lib_dict demo_vector_result)"
    by (simp only: i)
  from get_vector_library_missing_attribute [OF this a] show ?thesis .
qed

lemma demo_run_inner:
  "get_diffraction_library demo_X demo_inner (1 / 100) 1 (72, 72) True demo_store
     = (Inr demo_inner_result, demo_store_after)"
proof -
  have i: "items (struct_lib demo_inner) = items (struct_lib demo_library)"
    by (simp add: demo_inner_def)
  have a: "attrs (struct_lib demo_inner) ''indentifiers'' = Some [''X'']"
    "attrs (struct_lib demo_inner) ''structures'' = Some [''sX'']"
    by (simp_all add: demo_inner_def)
  from demo_phase_loop
  have "phase_loop demo_X (call_args (1 / 100) 1 (72, 72) True) (items (struct_lib demo_inner))
      Map.empty demo_store = (Inr (lib_dict demo_result), demo_store_after)"
    by (simp only: i)
  from get_diffraction_library_total [OF this a] show ?thesis
    by (simp add: demo_inner_result_def demo_result_def)
qed

section \<open>The claims\<close>

text \<open>
  C1. In the library that \<^verbatim>\<open>get_diffraction_library\<close> returns, an orientation is a key of
  a phase's dictionary exactly if a simulation of the phase at that orientation has a
  non-empty intensities vector, and a phase key is present exactly if one of its
  orientations was retained; so a phase without any reflection is absent from the
  library. (That the call returns does not depend on the reflections: lemma
  \<open>get_diffraction_library_returns\<close>.) The simulations of the call are one for each
  orientation of each phase, in the order of the input.
\<close>

theorem retained_orientations:
  assumes "get_diffraction_library X SL cal rr hs wdb \<sigma> = (Inr lib, \<sigma>')"
    and "distinct (map fst (items (struct_lib SL)))"
  shows "((\<exists>sub. lib_dict lib key = Some sub \<and> orientation \<in> dom sub) \<longleftrightarrow>
            (\<exists>s data. (key, orientation, s, data) \<in> set (run_log X SL cal rr hs wdb \<sigma>) \<and>
               get_intensities X data \<noteq> [])) \<and>
         (key \<in> dom (lib_dict lib) \<longleftrightarrow>
            (\<exists>orientation s data. (key, orientation, s, data) \<in> set (run_log X SL cal rr hs wdb \<sigma>) \<and>
               get_intensities X data \<noteq> [])) \<and>
         map (\<lambda>e. (fst e, fst (snd e))) (run_log X SL cal rr hs wdb \<sigma>)
           = concat (map (\<lambda>item. map (Pair (fst item)) (snd (snd item))) (items (struct_lib SL)))"
proof -
  let ?lg = "run_log X SL cal rr hs wdb \<sigma>"
  let ?rs = "retained X (phase_log key ?lg)"
  note lib = run_library [OF assms, of key]
  have a: "(\<exists>sub. lib_dict lib key = Some sub \<and> orientation \<in> dom sub) \<longleftrightarrow>
      orientation \<in> fst ` set ?rs"
  proof (cases "?rs = []")
    case True
    with lib show ?thesis by simp
  next
    case False
    with lib show ?thesis by (simp add: dom_map_of_rev_records)
  qed
  have b: "key \<in> dom (lib_dict lib) \<longleftrightarrow> ?rs \<noteq> []"
    using lib by (auto simp: dom_def)
  from get_diffraction_library_Inr [OF assms(1)]
  have "phase_loop X (call_args cal rr hs wdb) (items (struct_lib SL)) Map.empty \<sigma>
      = (Inr (lib_dict lib), \<sigma>')"
    by simp
  from ed_log_cover [OF this]
  have c: "map (\<lambda>e. (fst e, fst (snd e))) ?lg
      = concat (map (\<lambda>item. map (Pair (fst item)) (snd (snd item))) (items (struct_lib SL)))"
    by (simp add: run_log_def case_prod_unfold)
  from a b c show ?thesis
    by (simp only: fst_image_retained_iff retained_nonempty_iff)
qed

theorem retained_orientations_witness:
  "get_diffraction_library demo_X demo_library (1 / 100) 1 (72, 72) True demo_store
     = (Inr demo_result, demo_store_after) \<and>
   distinct (map fst (items (struct_lib demo_library))) \<and>
   (''A'', [0, 0, 0], demo_placed [[1, 0, 0], [0, 1, 0], [0, 0, 1]] 0, demo_data_000 0)
     \<in> set (run_log demo_X demo_library (1 / 100) 1 (72, 72) True demo_store) \<and>
   get_intensities demo_X (demo_data_000 0) \<noteq> [] \<and>
   ''A'' \<in> dom (lib_dict demo_result) \<and>
   ''B'' \<notin> dom (lib_dict demo_result)"
proof -
  note t = retained_orientations [OF demo_run demo_distinct]
  have m: "(''A'', [0, 0, 0], demo_placed [[1, 0, 0], [0, 1, 0], [0, 0, 1]] 0, demo_data_000 0)
      \<in> set (run_log demo_X demo_library (1 / 100) 1 (72, 72) True demo_store)"
    by (simp add: demo_run_log)
  have i: "get_intensities demo_X (demo_data_000 0) \<noteq> []"
    by simp
  from t [of "''A''"] m i have a: "''A'' \<in> dom (lib_dict demo_result)"
    by blast
  have "\<not> (\<exists>orientation s data.
      (''B'', orientation, s, data) \<in> set (run_log demo_X demo_library (1 / 100) 1 (72, 72) True demo_store)
      \<and> get_intensities demo_X data \<noteq> [])"
    by (simp add: demo_run_log)
  with t [of "''B''"] have b: "''B'' \<notin> dom (lib_dict demo_result)"
    by blast
  from demo_run demo_distinct m i a b show ?thesis by blast
qed

text \<open>
  C2. For every record of the returned diffraction library, the stored pixel coordinates
  are the first two columns of the calibrated coordinates of the stored simulation plus
  \<^verbatim>\<open>half_shape\<close>, rounded by \<^verbatim>\<open>np.rint\<close> and cast to integers: each stored coordinate is
  an integer at distance at most one half from the shifted coordinate. The stored
  simulation is what the calculator returned, with the calibration set.
\<close>

theorem pixel_coordinates_rounded:
  assumes "get_diffraction_library X SL cal rr hs wdb \<sigma> = (Inr lib, \<sigma>')"
    and "lib_dict lib key = Some sub" and "sub orientation = Some r"
  shows "pixel_coords r
           = map (\<lambda>(x, y, rest). (astype_int (rint (x + fst hs)), astype_int (rint (y + snd hs))))
               (calibrated_coordinates X (Sim r)) \<and>
         list_all2 (\<lambda>row px.
             real_of_int (fst px) = rint (fst row + fst hs) \<and>
             real_of_int (snd px) = rint (fst (snd row) + snd hs) \<and>
             \<bar>real_of_int (fst px) - (fst row + fst hs)\<bar> \<le> 1 / 2 \<and>
             \<bar>real_of_int (snd px) - (fst (snd row) + snd hs)\<bar> \<le> 1 / 2)
           (calibrated_coordinates X (Sim r)) (pixel_coords r) \<and>
         (\<exists>s data0. calculate_ed_data X s rr wdb = Inr data0 \<and> Sim r = set_calibration X cal data0)"
proof -
  from retained_record_produced [OF assms] obtain s data0
    where c: "calculate_ed_data X s rr wdb = Inr data0"
      and r: "r = make_record X (call_args cal rr hs wdb) (set_calibration X cal data0)"
    by (auto simp: produced_def call_args_def)
  from r have s: "Sim r = set_calibration X cal data0"
    and p: "pixel_coords r = pixel_coordinates (calibrated_coordinates X (Sim r)) hs"
    by (simp_all add: make_record_def Let_def call_args_def)
  from p pixel_coordinates_nearest [of hs "calibrated_coordinates X (Sim r)"] c s
  show ?thesis by (auto simp: pixel_coordinates_def)
qed

theorem pixel_coordinates_rounded_witness:
  "get_diffraction_library demo_X demo_library (1 / 100) 1 (72, 72) True demo_store
     = (Inr demo_result, demo_store_after) \<and>
   lib_dict demo_result ''A'' = Some [[0, 0, 0] \<mapsto> demo_record 0] \<and>
   [[0, 0, 0] \<mapsto> demo_record 0] [0, 0, 0] = Some (demo_record 0) \<and>
   calibrated_coordinates demo_X (Sim (demo_record 0)) = [(0, 0, [0]), (100 / 3, 0, [0])] \<and>
   pixel_coords (demo_record 0)
     = map (\<lambda>(x, y, rest). (astype_int (rint (x + fst (72 :: real, 72 :: real))),
                             astype_int (rint (y + snd (72 :: real, 72 :: real)))))
         (calibrated_coordinates demo_X (Sim (demo_record 0))) \<and>
   pixel_coords (demo_record 0) = [(72, 72), (105, 72)]"
proof -
  have h2: "lib_dict demo_result ''A'' = Some [[0, 0, 0] \<mapsto> demo_record 0]"
    by (simp add: demo_result_def)
  have h3: "[[0, 0, 0] \<mapsto> demo_record 0] [0, 0, 0] = Some (demo_record 0)"
    by simp
  have c: "calibrated_coordinates demo_X (Sim (demo_record 0)) = [(0, 0, [0]), (100 / 3, 0, [0])]"
    by (simp add: demo_record_def demo_data_000_def demo_X_def)
  have p: "pixel_coords (demo_record 0) = [(72, 72), (105, 72)]"
    by (simp add: demo_record_def)
  from pixel_coordinates_rounded [OF demo_run h2 h3] demo_run h2 h3 c p
  show ?thesis by blast
qed

text \<open>
  C3. For every phase of the structure library, when the points-in-sphere helper
  enumerates \<open>n\<close> points, the array that \<^verbatim>\<open>get_vector_library\<close> returns for the phase
  holds one record \<open>(hkl_i, hkl_j, dist_i, dist_j, angle (coord_i, coord_j))\<close> for each index
  pair \<open>i < j\<close>, in lexicographic order of the pairs: \<open>n * (n - 1) / 2\<close> records, no pair of
  an index with itself, no pair twice, every index within the helper's sequences; and
  the array is empty for \<open>n < 2\<close>.
\<close>

theorem vector_pairs_enumerated:
  assumes "get_vector_library G SL rr \<sigma> = Inr vlib"
    and "distinct (map fst (items (struct_lib SL)))"
    and "(key, a, os) \<in> set (items (struct_lib SL))"
    and "get_points_in_sphere G (reciprocal G (lattice (\<sigma> a))) rr = (indices, coordinates, distances)"
  shows "lib_dict vlib key
           = Some (map (vector_pair_of G indices coordinates distances) (index_pairs (length indices))) \<and>
         length (index_pairs (length indices)) = length indices * (length indices - 1) div 2 \<and>
         set (index_pairs (length indices)) = {(i, j). i < j \<and> j < length indices} \<and>
         distinct (index_pairs (length indices)) \<and>
         sorted_wrt lex_less (index_pairs (length indices)) \<and>
         (\<forall>p \<in> set (index_pairs (length indices)).
            fst p < length coordinates \<and> snd p < length coordinates \<and>
            fst p < length distances \<and> snd p < length distances) \<and>
         (length indices < 2 \<longrightarrow> lib_dict vlib key = Some [])"
proof -
  from get_vector_library_Inr [OF assms(1)]
  have l: "vector_phase_loop G rr \<sigma> (items (struct_lib SL)) Map.empty = Inr (lib_dict vlib)"
    by simp
  have e: "lib_dict vlib key
      = Some (map (vector_pair_of G indices coordinates distances) (index_pairs (length indices)))"
    using vector_phase_loop_entry [OF l assms(2,3,4)] by (simp add: combinations2_arange)
  have r: "\<forall>p \<in> set (index_pairs (length indices)).
      fst p < length coordinates \<and> snd p < length coordinates \<and>
      fst p < length distances \<and> snd p < length distances"
    using vector_phase_loop_in_range [OF l assms(3,4)] by blast
  from e have "length indices < 2 \<longrightarrow> lib_dict vlib key = Some []"
    by (simp add: index_pairs_small)
  with e r show ?thesis
    using length_index_pairs [of "length indices"] set_index_pairs [of "length indices"]
      distinct_index_pairs [of "length indices"] sorted_index_pairs [of "length indices"]
    by blast
qed

theorem vector_pairs_enumerated_witness:
  "get_vector_library demo_G demo_library 1 demo_vector_store = Inr demo_vector_result \<and>
   distinct (map fst (items (struct_lib demo_library))) \<and>
   (''A'', 0, [[0, 0, 0], [180, 0, 0], [0, 0, 0]]) \<in> set (items (struct_lib demo_library)) \<and>
   get_points_in_sphere demo_G (reciprocal demo_G (lattice (demo_vector_store 0))) 1
     = ([(0, 0, 0), (1, 0, 0), (- 1, 0, 0)], [(0, 0, 0), (1 / 3, 0, 0), (- 1 / 3, 0, 0)], [0, 1 / 3, 1 / 3]) \<and>
   lib_dict demo_vector_result ''A''
     = Some (map (vector_pair_of demo_G [(0, 0, 0), (1, 0, 0), (- 1, 0, 0)]
                    [(0, 0, 0), (1 / 3, 0, 0), (- 1 / 3, 0, 0)] [0, 1 / 3, 1 / 3]) (index_pairs 3)) \<and>
   length (index_pairs 3) = 3 \<and>
   set (index_pairs 3) = {(i, j). i < j \<and> j < 3}"
proof -
  have h2: "distinct (map fst (items (struct_lib demo_library)))"
    by (simp add: demo_library_def)
  have h3: "(''A'', 0, [[0, 0, 0], [180, 0, 0], [0, 0, 0]]) \<in> set (items (struct_lib demo_library))"
    by (simp add: demo_library_def)
  have h4: "get_points_in_sphere demo_G (reciprocal demo_G (lattice (demo_vector_store 0))) 1
     = ([(0, 0, 0), (1, 0, 0), (- 1, 0, 0)], [(0, 0, 0), (1 / 3, 0, 0), (- 1 / 3, 0, 0)], [0, 1 / 3, 1 / 3])"
    by (simp add: demo_G_def demo_vector_store_def demo_store_def demo_structure_def Lattice_def)
  from vector_pairs_enumerated [OF demo_vector_run h2 h3 h4] demo_vector_run h2 h3 h4
  show ?thesis by (simp add: numeral_3_eq_3)
qed

text \<open>
  C4. For every record of the returned diffraction library, the stored pattern norm is
  the Euclidean norm of the stored intensities vector: the square root of the dot
  product of the vector with itself, that is of the sum of the squares of its entries.
\<close>

theorem pattern_norm_euclidean:
  assumes "get_diffraction_library X SL cal rr hs wdb \<sigma> = (Inr lib, \<sigma>')"
    and "lib_dict lib key = Some sub" and "sub orientation = Some r"
  shows "pattern_norm r = sqrt (dot (intensities r) (intensities r)) \<and>
         pattern_norm r = sqrt (\<Sum>x\<leftarrow>intensities r. x\<^sup>2) \<and>
         0 \<le> pattern_norm r \<and> (pattern_norm r)\<^sup>2 = (\<Sum>x\<leftarrow>intensities r. x\<^sup>2) \<and>
         intensities r = get_intensities X (Sim r) \<and> intensities r \<noteq> []"
proof -
  from retained_record_produced [OF assms] obtain data0
    where r: "r = make_record X (call_args cal rr hs wdb) (set_calibration X cal data0)"
      and n: "get_intensities X (set_calibration X cal data0) \<noteq> []"
    by (auto simp: produced_def call_args_def)
  from r have p: "pattern_norm r = sqrt (dot (intensities r) (intensities r))"
    and i: "intensities r = get_intensities X (Sim r)"
    and s: "Sim r = set_calibration X cal data0"
    by (simp_all add: make_record_def Let_def)
  from p have "(pattern_norm r)\<^sup>2 = dot (intensities r) (intensities r)"
    by (simp add: dot_self_nonneg)
  with p i s n show ?thesis by (simp add: dot_self [symmetric] dot_self_nonneg)
qed

theorem pattern_norm_euclidean_witness:
  "get_diffraction_library demo_X demo_library (1 / 100) 1 (72, 72) True demo_store
     = (Inr demo_result, demo_store_after) \<and>
   lib_dict demo_result ''A'' = Some [[0, 0, 0] \<mapsto> demo_record 0] \<and>
   [[0, 0, 0] \<mapsto> demo_record 0] [0, 0, 0] = Some (demo_record 0) \<and>
   intensities (demo_record 0) = [1, 3] \<and>
   pattern_norm (demo_record 0) = sqrt (dot (intensities (demo_record 0)) (intensities (demo_record 0))) \<and>
   (pattern_norm (demo_record 0))\<^sup>2 = 10"
proof -
  have h2: "lib_dict demo_result ''A'' = Some [[0, 0, 0] \<mapsto> demo_record 0]"
    by (simp add: demo_result_def)
  have h3: "[[0, 0, 0] \<mapsto> demo_record 0] [0, 0, 0] = Some (demo_record 0)"
    by simp
  have i: "intensities (demo_record 0) = [1, 3]"
    by (simp add: demo_record_def)
  note t = pattern_norm_euclidean [OF demo_run h2 h3]
  from t have "(pattern_norm (demo_record 0))\<^sup>2 = (\<Sum>x\<leftarrow>intensities (demo_record 0). x\<^sup>2)"
    by blast
  with i have "(pattern_norm (demo_record 0))\<^sup>2 = 10" by simp
  with t demo_run h2 h3 i show ?thesis by blast
qed

text \<open>
  C5. Both generators are to pass the attributes \<^verbatim>\<open>identifiers\<close> and \<^verbatim>\<open>structures\<close> of the
  input \<^verbatim>\<open>StructureLibrary\<close> object on to the library they return (the source says so
  above lines 130 and 200). The code does not: by then the name \<^verbatim>\<open>structure_library\<close> is
  bound to the \<^verbatim>\<open>struct_lib\<close> object, and the attribute read from it is spelt
  \<^verbatim>\<open>indentifiers\<close>. On a structure library with the attributes \<^verbatim>\<open>identifiers\<close> and
  \<^verbatim>\<open>structures\<close> and a plain dictionary as \<^verbatim>\<open>struct_lib\<close>, both generators run their loops
  and then raise \<^verbatim>\<open>AttributeError\<close>; on one whose \<^verbatim>\<open>struct_lib\<close> object has attributes of
  its own, the returned library carries those, not the attributes of the input.
\<close>

theorem attributes_not_passed_through:
  "attributes demo_plain ''identifiers'' = Some [''A'', ''B''] \<and>
   attributes demo_plain ''structures'' = Some [''s0'', ''s1''] \<and>
   get_diffraction_library demo_X demo_plain (1 / 100) 1 (72, 72) True demo_store
     = (Inl (AttributeError ''indentifiers''), demo_store_after) \<and>
   get_vector_library demo_G demo_plain 1 demo_vector_store = Inl (AttributeError ''indentifiers'') \<and>
   attributes demo_inner ''identifiers'' = Some [''A'', ''B''] \<and>
   get_diffraction_library demo_X demo_inner (1 / 100) 1 (72, 72) True demo_store
     = (Inr demo_inner_result, demo_store_after) \<and>
   identifiers demo_inner_result = [''X'']"
proof -
  have "attributes demo_plain ''identifiers'' = Some [''A'', ''B'']"
    and "attributes demo_plain ''structures'' = Some [''s0'', ''s1'']"
    and "attributes demo_inner ''identifiers'' = Some [''A'', ''B'']"
    and "identifiers demo_inner_result = [''X'']"
    by (simp_all add: demo_plain_def demo_inner_def demo_library_def demo_inner_result_def)
  with demo_run_plain demo_vector_run_plain demo_run_inner show ?thesis by simp
qed

text \<open>
  C6, as amended. A phase's dictionary has one record for each of its keys, so at most
  as many keys as the phase has distinct orientations, and the record under an
  orientation is the one that was written last: the record of the last simulation at that
  orientation that has reflections. An occurrence without reflections writes nothing and
  leaves the record of an earlier occurrence in place. In particular, when an orientation
  occurs several times in the list and its last occurrence has reflections, the record of
  the last occurrence is the stored one.
\<close>

theorem last_write_wins:
  assumes "get_diffraction_library X SL cal rr hs wdb \<sigma> = (Inr lib, \<sigma>')"
    and "distinct (map fst (items (struct_lib SL)))"
    and "phase_log key (run_log X SL cal rr hs wdb \<sigma>) = before @ (orientation, s, data) # after"
    and "get_intensities X data \<noteq> []"
    and "\<forall>e \<in> set after. fst e = orientation \<longrightarrow> get_intensities X (snd (snd e)) = []"
  shows "\<exists>sub. lib_dict lib key = Some sub \<and>
           sub orientation = Some (make_record X (call_args cal rr hs wdb) data) \<and>
           card (dom sub) \<le> card (fst ` set (phase_log key (run_log X SL cal rr hs wdb \<sigma>)))"
proof -
  let ?P = "call_args cal rr hs wdb"
  let ?lg = "phase_log key (run_log X SL cal rr hs wdb \<sigma>)"
  let ?sub = "map_of (rev (records X ?P (retained X ?lg)))"
  have r: "retained X ?lg = retained X before @ (orientation, s, data) # retained X after"
    using assms(3,4) by (rule retained_split)
  then have ne: "retained X ?lg \<noteq> []" by simp
  with run_library [OF assms(1,2), of key] have l: "lib_dict lib key = Some ?sub" by simp
  have "orientation \<notin> fst ` set (retained X after)"
    using assms(5) by (auto simp: set_retained)
  then have "orientation \<notin> fst ` set (records X ?P (retained X after))" by simp
  then have "map_of (rev (records X ?P (retained X before)
      @ (orientation, make_record X ?P data) # records X ?P (retained X after))) orientation
      = Some (make_record X ?P data)"
    by (rule map_of_rev_last)
  then have v: "?sub orientation = Some (make_record X ?P data)"
    by (simp add: r)
  have "dom ?sub = fst ` set (retained X ?lg)"
    by (rule dom_map_of_rev_records)
  also have "\<dots> \<subseteq> fst ` set ?lg"
    by (auto simp: set_retained)
  finally have "card (dom ?sub) \<le> card (fst ` set ?lg)"
    by (intro card_mono) simp_all
  with l v show ?thesis by blast
qed

theorem last_write_wins_witness:
  "get_diffraction_library demo_X_counting demo_library (1 / 100) 1 (72, 72) True demo_store
     = (Inr demo_result_counting, demo_store_counting) \<and>
   distinct (map fst (items (struct_lib demo_library))) \<and>
   phase_log ''A'' (run_log demo_X_counting demo_library (1 / 100) 1 (72, 72) True demo_store)
     = [([0, 0, 0], demo_placed [[1, 0, 0], [0, 1, 0], [0, 0, 1]] 1, demo_data_000 1),
        ([180, 0, 0], demo_placed [[- 1, 0, 0], [0, - 1, 0], [0, 0, 1]] 2, (1 / 100, [], []))]
       @ ([0, 0, 0], demo_placed [[1, 0, 0], [0, 1, 0], [0, 0, 1]] 3, demo_data_000 3) # [] \<and>
   get_intensities demo_X_counting (demo_data_000 3) \<noteq> [] \<and>
   lib_dict demo_result_counting ''A'' = Some [[0, 0, 0] \<mapsto> demo_record 3] \<and>
   Some (demo_record 3)
     = Some (make_record demo_X_counting (call_args (1 / 100) 1 (72, 72) True) (demo_data_000 3)) \<and>
   intensities (demo_record 3) = [1, 6] \<and> intensities (demo_record 1) = [1, 4]"
proof -
  have h3: "phase_log ''A'' (run_log demo_X_counting demo_library (1 / 100) 1 (72, 72) True demo_store)
     = [([0, 0, 0], demo_placed [[1, 0, 0], [0, 1, 0], [0, 0, 1]] 1, demo_data_000 1),
        ([180, 0, 0], demo_placed [[- 1, 0, 0], [0, - 1, 0], [0, 0, 1]] 2, (1 / 100, [], []))]
       @ ([0, 0, 0], demo_placed [[1, 0, 0], [0, 1, 0], [0, 0, 1]] 3, demo_data_000 3) # []"
    by (simp add: demo_run_log_counting phase_log_def)
  have h4: "get_intensities demo_X_counting (demo_data_000 3) \<noteq> []"
    by simp
  have h5: "\<forall>e \<in> set ([] :: (orientation \<times> nat Structure \<times> demo_data) list).
      fst e = [0, 0, 0] \<longrightarrow> get_intensities demo_X_counting (snd (snd e)) = []"
    by simp
  have l: "lib_dict demo_result_counting ''A'' = Some [[0, 0, 0] \<mapsto> demo_record 3]"
    by (simp add: demo_result_counting_def)
  from last_write_wins [OF demo_run_counting demo_distinct h3 h4 h5] l
  have "[[0, 0, 0] \<mapsto> demo_record 3] [0, 0, 0]
      = Some (make_record demo_X_counting (call_args (1 / 100) 1 (72, 72) True) (demo_data_000 3))"
    by auto
  then have v: "Some (demo_record 3)
      = Some (make_record demo_X_counting (call_args (1 / 100) 1 (72, 72) True) (demo_data_000 3))"
    by simp
  have i: "intensities (demo_record 3) = [1, 6]" "intensities (demo_record 1) = [1, 4]"
    by (simp_all add: demo_record_def)
  from demo_run_counting demo_distinct h3 h4 l v i show ?thesis by blast
qed

text \<open>
  C6, as stated, fails when the last occurrence of a repeated orientation has no
  reflections and an earlier one has: the record under the orientation is then the one of
  the earlier occurrence, since lines 121 to 127 remove nothing.
\<close>

theorem last_occurrence_counterexample:
  "get_diffraction_library demo_X_fading demo_repeated (1 / 100) 1 (72, 72) True demo_store
     = (Inr demo_repeated_result, demo_repeated_store_after) \<and>
   phase_log ''A'' (run_log demo_X_fading demo_repeated (1 / 100) 1 (72, 72) True demo_store)
     = [([0, 0, 0], demo_placed [[1, 0, 0], [0, 1, 0], [0, 0, 1]] 1, demo_data_5),
        ([0, 0, 0], demo_placed [[1, 0, 0], [0, 1, 0], [0, 0, 1]] 2, (1 / 100, [], []))] \<and>
   lib_dict demo_repeated_result ''A'' = Some [[0, 0, 0] \<mapsto> demo_record_5] \<and>
   demo_record_5 = make_record demo_X_fading (call_args (1 / 100) 1 (72, 72) True) demo_data_5 \<and>
   demo_record_5 \<noteq> make_record demo_X_fading (call_args (1 / 100) 1 (72, 72) True) (1 / 100, [], [])"
proof -
  have l: "phase_log ''A'' (run_log demo_X_fading demo_repeated (1 / 100) 1 (72, 72) True demo_store)
     = [([0, 0, 0], demo_placed [[1, 0, 0], [0, 1, 0], [0, 0, 1]] 1, demo_data_5),
        ([0, 0, 0], demo_placed [[1, 0, 0], [0, 1, 0], [0, 0, 1]] 2, (1 / 100, [], []))]"
    by (simp add: demo_run_log_repeated phase_log_def)
  have d: "lib_dict demo_repeated_result ''A'' = Some [[0, 0, 0] \<mapsto> demo_record_5]"
    by (simp add: demo_repeated_result_def)
  have r: "demo_record_5 = make_record demo_X_fading (call_args (1 / 100) 1 (72, 72) True) demo_data_5"
    using demo_make_record_fading by (simp add: demo_args_def)
  have "intensities (make_record demo_X_fading (call_args (1 / 100) 1 (72, 72) True) (1 / 100, [], []))
      = []"
    by (simp add: make_record_def Let_def)
  moreover have "intensities demo_record_5 = [5]"
    by (simp add: demo_record_5_def)
  ultimately have n: "demo_record_5
      \<noteq> make_record demo_X_fading (call_args (1 / 100) 1 (72, 72) True) (1 / 100, [], [])"
    by auto
  from demo_run_repeated l d r n show ?thesis by blast
qed

text \<open>
  C7, as amended. When placing a structure in a lattice leaves a structure that does
  not depend on the lattices it was placed in before, a second call of
  \<^verbatim>\<open>get_diffraction_library\<close> with the same arguments, made on the structures as the first
  call left them, returns what the first call returned: the same library (phase keys,
  orientation keys, records) or the same exception. The calculator is a function of the
  structure it is given; the cell parameters that the second call reads are those the
  first call read.
\<close>

theorem second_call_identical:
  assumes "placement_stable X"
    and "get_diffraction_library X SL cal rr hs wdb \<sigma> = (r, \<sigma>')"
  shows "fst (get_diffraction_library X SL cal rr hs wdb \<sigma>') = r"
proof -
  have "\<sigma>' = snd (phase_loop X (call_args cal rr hs wdb) (items (struct_lib SL)) Map.empty \<sigma>)"
    using assms(2) snd_get_diffraction_library [of X SL cal rr hs wdb \<sigma>] by simp
  then have "\<forall>b. same_placement X (\<sigma>' b) (\<sigma> b)"
    using phase_loop_stable [OF assms(1)] by blast
  from get_diffraction_library_same [OF this, of SL cal rr hs wdb] assms(2) show ?thesis by simp
qed

theorem second_call_identical_witness:
  "placement_stable demo_X_basis \<and>
   get_diffraction_library demo_X_basis demo_library (1 / 100) 1 (72, 72) True demo_basis_store
     = (Inr demo_result, demo_basis_store_after) \<and>
   atoms (demo_basis_store 0) = [] \<and>
   atoms (demo_basis_store_after 0) = [[1, 0, 0], [0, 1, 0], [0, 0, 1]] \<and>
   atoms (demo_basis_store_after 1) = [[- 1, 0, 0], [0, - 1, 0], [0, 0, 1]] \<and>
   fst (get_diffraction_library demo_X_basis demo_library (1 / 100) 1 (72, 72) True
          demo_basis_store_after)
     = Inr demo_result"
proof -
  have "atoms (demo_basis_store 0) = []"
    and "atoms (demo_basis_store_after 0) = [[1, 0, 0], [0, 1, 0], [0, 0, 1]]"
    and "atoms (demo_basis_store_after 1) = [[- 1, 0, 0], [0, - 1, 0], [0, 0, 1]]"
    by (simp_all add: demo_basis_store_after_def demo_basis_store_def demo_basis_placed_def)
  with second_call_identical [OF demo_placement_stable_basis demo_run_basis]
    demo_placement_stable_basis demo_run_basis
  show ?thesis by blast
qed

text \<open>
  C7, as stated, fails when what \<^verbatim>\<open>placeInLattice\<close> leaves in the structure depends on
  the earlier placements: the calculator is a function of the structure it is given and
  the cell parameters are unchanged, and yet the second call returns other records.
\<close>

theorem second_call_counterexample:
  "get_diffraction_library demo_X_counting demo_library (1 / 100) 1 (72, 72) True demo_store
     = (Inr demo_result_counting, demo_store_counting) \<and>
   get_diffraction_library demo_X_counting demo_library (1 / 100) 1 (72, 72) True demo_store_counting
     = (Inr demo_result_recounting, demo_store_recounting) \<and>
   cell_parameters (lattice (demo_store_counting 0)) = cell_parameters (lattice (demo_store 0)) \<and>
   cell_parameters (lattice (demo_store_counting 1)) = cell_parameters (lattice (demo_store 1)) \<and>
   lib_dict demo_result_counting ''A'' = Some [[0, 0, 0] \<mapsto> demo_record 3] \<and>
   lib_dict demo_result_recounting ''A'' = Some [[0, 0, 0] \<mapsto> demo_record 6] \<and>
   intensities (demo_record 3) = [1, 6] \<and> intensities (demo_record 6) = [1, 9] \<and>
   pattern_norm (demo_record 3) \<noteq> pattern_norm (demo_record 6) \<and>
   demo_result_recounting \<noteq> demo_result_counting"
proof -
  have c: "cell_parameters (lattice (demo_store_counting 0)) = cell_parameters (lattice (demo_store 0))"
    "cell_parameters (lattice (demo_store_counting 1)) = cell_parameters (lattice (demo_store 1))"
    by (simp_all add: demo_store_counting_def demo_store_def demo_structure_placed)
  have l: "lib_dict demo_result_counting ''A'' = Some [[0, 0, 0] \<mapsto> demo_record 3]"
    "lib_dict demo_result_recounting ''A'' = Some [[0, 0, 0] \<mapsto> demo_record 6]"
    by (simp_all add: demo_result_counting_def demo_result_recounting_def)
  have i: "intensities (demo_record 3) = [1, 6]" "intensities (demo_record 6) = [1, 9]"
    by (simp_all add: demo_record_def)
  have p: "pattern_norm (demo_record 3) \<noteq> pattern_norm (demo_record 6)"
    by (simp add: demo_record_def dot_def)
  have "demo_record 6 \<noteq> demo_record 3"
    using i by auto
  then have "[[0 :: real, 0, 0] \<mapsto> demo_record 6] \<noteq> [[0, 0, 0] \<mapsto> demo_record 3]"
    by (auto dest: fun_cong [where x = "[0, 0, 0]"])
  with l have "lib_dict demo_result_recounting ''A'' \<noteq> lib_dict demo_result_counting ''A''"
    by simp
  then have n: "demo_result_recounting \<noteq> demo_result_counting"
    by auto
  from demo_run_counting demo_rerun_counting c l i p n show ?thesis by blast
qed

text \<open>
  C8. When the calculator raises at some orientation of some phase, after the phases
  and the orientations before it were processed (whatever records they produced), the
  call of \<^verbatim>\<open>get_diffraction_library\<close> ends with that exception: no library is returned,
  the orientations and phases after it are not looked at, and the structure is left in
  the lattice of the failing orientation.
\<close>

theorem simulator_failure_propagates:
  assumes its: "items (struct_lib SL) = pre @ (key, a, os1 @ orientation # os2) # post"
    and pre: "phase_loop X (call_args cal rr hs wdb) pre Map.empty \<sigma> = (Inr lib1, \<sigma>1)"
    and os1: "orientation_loop X (call_args cal rr hs wdb) (cell_parameters (lattice (\<sigma>1 a))) a key os1
                (Map.empty, lib1) \<sigma>1 = (Inr acc, \<sigma>2)"
    and rot: "latt_rot X (cell_parameters (lattice (\<sigma>1 a))) orientation = Inr L"
    and raise: "calculate_ed_data X (placeInLattice X L (\<sigma>2 a)) rr wdb = Inl e"
  shows "get_diffraction_library X SL cal rr hs wdb \<sigma>
           = (Inl (Raised e), \<sigma>2(a := placeInLattice X L (\<sigma>2 a)))"
proof -
  let ?P = "call_args cal rr hs wdb"
  let ?cell = "cell_parameters (lattice (\<sigma>1 a))"
  have "orientation_body X ?P ?cell a key orientation acc \<sigma>2
      = (Inl (Raised e), \<sigma>2(a := placeInLattice X L (\<sigma>2 a)))"
    using rot raise by (intro orientation_body_raise) (simp_all add: call_args_def)
  then have "orientation_loop X ?P ?cell a key (os1 @ orientation # os2) (Map.empty, lib1) \<sigma>1
      = (Inl (Raised e), \<sigma>2(a := placeInLattice X L (\<sigma>2 a)))"
    using os1 by (simp add: orientation_loop_append)
  then have "phase_body X ?P (key, a, os1 @ orientation # os2) lib1 \<sigma>1
      = (Inl (Raised e), \<sigma>2(a := placeInLattice X L (\<sigma>2 a)))"
    by (simp add: phase_body_def)
  then have "phase_loop X ?P (items (struct_lib SL)) Map.empty \<sigma>
      = (Inl (Raised e), \<sigma>2(a := placeInLattice X L (\<sigma>2 a)))"
    using pre by (simp add: its phase_loop_append)
  then show ?thesis by (simp add: get_diffraction_library_def)
qed

theorem simulator_failure_propagates_witness:
  "items (struct_lib demo_failing)
     = [(''A'', 0, [[0, 0, 0]])] @ (''B'', 1, [[0, 0, 0]] @ [0, 180, 0] # [[180, 0, 0]]) # [] \<and>
   phase_loop demo_X (call_args (1 / 100) 1 (72, 72) True) [(''A'', 0, [[0, 0, 0]])] Map.empty demo_store
     = (Inr demo_fail_lib1, demo_fail_store1) \<and>
   orientation_loop demo_X (call_args (1 / 100) 1 (72, 72) True)
       (cell_parameters (lattice (demo_fail_store1 1))) 1 ''B'' [[0, 0, 0]]
       (Map.empty, demo_fail_lib1) demo_fail_store1
     = (Inr demo_fail_acc, demo_fail_store2) \<and>
   latt_rot demo_X (cell_parameters (lattice (demo_fail_store1 1))) [0, 180, 0] = Inr demo_fail_lattice \<and>
   calculate_ed_data demo_X (placeInLattice demo_X demo_fail_lattice (demo_fail_store2 1)) 1 True
     = Inl ''no convergence'' \<and>
   get_diffraction_library demo_X demo_failing (1 / 100) 1 (72, 72) True demo_store
     = (Inl (Raised ''no convergence''),
        demo_fail_store2(1 := placeInLattice demo_X demo_fail_lattice (demo_fail_store2 1)))"
proof -
  have h1: "items (struct_lib demo_failing)
     = [(''A'', 0, [[0, 0, 0]])] @ (''B'', 1, [[0, 0, 0]] @ [0, 180, 0] # [[180, 0, 0]]) # []"
    by (simp add: demo_failing_def)
  have h2: "phase_loop demo_X (call_args (1 / 100) 1 (72, 72) True) [(''A'', 0, [[0, 0, 0]])]
      Map.empty demo_store = (Inr demo_fail_lib1, demo_fail_store1)"
    by (simp add: phase_body_def orientation_body_def demo_store_def demo_structure_placed
        demo_sim_000 demo_make_record demo_fail_lib1_def demo_fail_store1_def Let_def
        demo_args_def [symmetric])
  have h3: "orientation_loop demo_X (call_args (1 / 100) 1 (72, 72) True)
       (cell_parameters (lattice (demo_fail_store1 1))) 1 ''B'' [[0, 0, 0]]
       (Map.empty, demo_fail_lib1) demo_fail_store1
     = (Inr demo_fail_acc, demo_fail_store2)"
    by (simp add: orientation_body_def demo_store_def demo_structure_placed demo_fail_store1_def
        demo_sim_000 demo_make_record demo_fail_acc_def demo_fail_store2_def Let_def
        demo_args_def [symmetric])
  have h4: "latt_rot demo_X (cell_parameters (lattice (demo_fail_store1 1))) [0, 180, 0]
      = Inr demo_fail_lattice"
    by (simp add: demo_fail_store1_def demo_store_def demo_structure_placed demo_fail_lattice_def
        demo_X_def)
  have h5: "calculate_ed_data demo_X (placeInLattice demo_X demo_fail_lattice (demo_fail_store2 1)) 1 True
      = Inl ''no convergence''"
    by (simp add: demo_X_def demo_calculate_def demo_fail_lattice_def Lattice_def)
  from simulator_failure_propagates [OF h1 h2 h3 h4 h5] h1 h2 h3 h4 h5
  show ?thesis by blast
qed

text \<open>
  C9. The library returned by \<^verbatim>\<open>get_vector_library\<close> has exactly the phase keys of the
  structure library, and a phase for which fewer than two points are enumerated is
  present with an empty array.
\<close>

theorem vector_library_keys:
  assumes "get_vector_library G SL rr \<sigma> = Inr vlib"
  shows "dom (lib_dict vlib) = fst ` set (items (struct_lib SL)) \<and>
         (distinct (map fst (items (struct_lib SL))) \<longrightarrow>
          (\<forall>item \<in> set (items (struct_lib SL)).
             length (fst (get_points_in_sphere G (reciprocal G (lattice (\<sigma> (fst (snd item))))) rr)) < 2
             \<longrightarrow> lib_dict vlib (fst item) = Some []))"
proof -
  from get_vector_library_Inr [OF assms]
  have l: "vector_phase_loop G rr \<sigma> (items (struct_lib SL)) Map.empty = Inr (lib_dict vlib)"
    by simp
  have "dom (lib_dict vlib) = fst ` set (items (struct_lib SL))"
    using vector_phase_loop_dom [OF l] by simp
  moreover have "lib_dict vlib (fst item) = Some []"
    if d: "distinct (map fst (items (struct_lib SL)))" and i: "item \<in> set (items (struct_lib SL))"
      and n: "length (fst (get_points_in_sphere G (reciprocal G (lattice (\<sigma> (fst (snd item))))) rr)) < 2"
    for item
  proof -
    obtain key a os where item: "item = (key, a, os)" by (cases item)
    obtain I C D where p: "get_points_in_sphere G (reciprocal G (lattice (\<sigma> a))) rr = (I, C, D)"
      by (cases "get_points_in_sphere G (reciprocal G (lattice (\<sigma> a))) rr")
    from n item p have "length I < 2" by simp
    with vector_phase_loop_entry [OF l d i [unfolded item] p] item show ?thesis
      by (simp add: combinations2_arange index_pairs_small)
  qed
  ultimately show ?thesis by blast
qed

theorem vector_library_keys_witness:
  "get_vector_library demo_G demo_library 1 demo_vector_store = Inr demo_vector_result \<and>
   distinct (map fst (items (struct_lib demo_library))) \<and>
   (''B'', 1, [[180, 0, 0]]) \<in> set (items (struct_lib demo_library)) \<and>
   length (fst (get_points_in_sphere demo_G (reciprocal demo_G (lattice (demo_vector_store 1))) 1)) < 2 \<and>
   dom (lib_dict demo_vector_result) = {''A'', ''B''} \<and>
   lib_dict demo_vector_result ''B'' = Some []"
proof -
  have h2: "distinct (map fst (items (struct_lib demo_library)))"
    by (simp add: demo_library_def)
  have h3: "(''B'', 1, [[180, 0, 0]]) \<in> set (items (struct_lib demo_library))"
    by (simp add: demo_library_def)
  have h4: "length (fst (get_points_in_sphere demo_G
      (reciprocal demo_G (lattice (demo_vector_store 1))) 1)) < 2"
    by (simp add: demo_G_def demo_vector_store_def Lattice_def)
  have k: "fst ` set (items (struct_lib demo_library)) = {''A'', ''B''}"
    by (simp add: demo_library_def)
  note t = vector_library_keys [OF demo_vector_run]
  from t have d: "dom (lib_dict demo_vector_result) = fst ` set (items (struct_lib demo_library))"
    by blast
  from t h2 have "\<forall>item \<in> set (items (struct_lib demo_library)).
      length (fst (get_points_in_sphere demo_G
        (reciprocal demo_G (lattice (demo_vector_store (fst (snd item))))) 1)) < 2
      \<longrightarrow> lib_dict demo_vector_result (fst item) = Some []"
    by blast
  from this [rule_format, OF h3] h4 have "lib_dict demo_vector_result ''B'' = Some []"
    by simp
  with d demo_vector_run h2 h3 h4 k show ?thesis by simp
qed

text \<open>
  C10, as amended. A call of \<^verbatim>\<open>get_diffraction_library\<close> leaves the six cell parameters
  of every structure as they were, whatever the outcome of the call; every structure
  that was passed to the calculator had the lattice built from the cell parameters that
  its phase's structure had when the call began and from the rotation of the orientation
  at hand; and when the loops run to their end, a phase with a non-empty orientation
  list whose structure object no later phase with a non-empty orientation list refers to
  holds the lattice built for the last orientation of its list.
\<close>

theorem lattice_after_call:
  assumes "get_diffraction_library X SL cal rr hs wdb \<sigma> = (r, \<sigma>')"
  shows "(\<forall>b. cell_parameters (lattice (\<sigma>' b)) = cell_parameters (lattice (\<sigma> b))) \<and>
         (\<forall>key orientation s data.
            (key, orientation, s, data) \<in> set (run_log X SL cal rr hs wdb \<sigma>) \<longrightarrow>
            (\<exists>a os. (key, a, os) \<in> set (items (struct_lib SL)) \<and> orientation \<in> set os \<and>
               latt_rot X (cell_parameters (lattice (\<sigma> a))) orientation = Inr (lattice s))) \<and>
         (\<forall>pre key a os post.
            items (struct_lib SL) = pre @ (key, a, os) # post \<and> os \<noteq> [] \<and>
            (\<forall>item \<in> set post. fst (snd item) = a \<longrightarrow> snd (snd item) = []) \<and>
            r \<noteq> Inl IndexError \<and> (\<forall>e. r \<noteq> Inl (Raised e)) \<longrightarrow>
            latt_rot X (cell_parameters (lattice (\<sigma> a))) (last os) = Inr (lattice (\<sigma>' a)))"
proof -
  let ?P = "call_args cal rr hs wdb"
  obtain r1 where l: "phase_loop X ?P (items (struct_lib SL)) Map.empty \<sigma> = (r1, \<sigma>')"
    using snd_get_diffraction_library [of X SL cal rr hs wdb \<sigma>] assms
    by (cases "phase_loop X ?P (items (struct_lib SL)) Map.empty \<sigma>") simp
  have c: "\<forall>b. cell_parameters (lattice (\<sigma>' b)) = cell_parameters (lattice (\<sigma> b))"
    using phase_loop_cell [OF l] by blast
  have g: "\<exists>a os. (key, a, os) \<in> set (items (struct_lib SL)) \<and> orientation \<in> set os \<and>
      latt_rot X (cell_parameters (lattice (\<sigma> a))) orientation = Inr (lattice s)"
    if "(key, orientation, s, data) \<in> set (run_log X SL cal rr hs wdb \<sigma>)"
    for key orientation s data
    using that unfolding run_log_def by (rule ed_log_lattice)
  have f: "latt_rot X (cell_parameters (lattice (\<sigma> a))) (last os) = Inr (lattice (\<sigma>' a))"
    if i: "items (struct_lib SL) = pre @ (key, a, os) # post" and n: "os \<noteq> []"
      and p: "\<forall>item \<in> set post. fst (snd item) = a \<longrightarrow> snd (snd item) = []"
      and e: "r \<noteq> Inl IndexError" "\<forall>e. r \<noteq> Inl (Raised e)"
    for pre key a os post
  proof -
    from loops_completed [OF assms e] obtain m
      where "phase_loop X ?P (items (struct_lib SL)) Map.empty \<sigma> = (Inr m, \<sigma>')"
      by blast
    then have "phase_loop X ?P (pre @ (key, a, os) # post) Map.empty \<sigma> = (Inr m, \<sigma>')"
      by (simp only: i)
    from phase_loop_last [OF this n p] show ?thesis .
  qed
  from c g f show ?thesis by blast
qed

theorem lattice_after_call_witness:
  "get_diffraction_library demo_X demo_library (1 / 100) 1 (72, 72) True demo_store
     = (Inr demo_result, demo_store_after) \<and>
   items (struct_lib demo_library)
     = [] @ (''A'', 0, [[0, 0, 0], [180, 0, 0], [0, 0, 0]]) # [(''B'', 1, [[180, 0, 0]])] \<and>
   cell_parameters (lattice (demo_store_after 0)) = cell_parameters (lattice (demo_store 0)) \<and>
   cell_parameters (lattice (demo_store_after 1)) = cell_parameters (lattice (demo_store 1)) \<and>
   latt_rot demo_X (cell_parameters (lattice (demo_store 0))) (last [[0, 0, 0], [180, 0, 0], [0, 0, 0]])
     = Inr (lattice (demo_store_after 0))"
proof -
  note t = lattice_after_call [OF demo_run]
  have i: "items (struct_lib demo_library)
     = [] @ (''A'', 0, [[0, 0, 0], [180, 0, 0], [0, 0, 0]]) # [(''B'', 1, [[180, 0, 0]])]"
    by (simp add: demo_library_def)
  have n: "[[0, 0, 0], [180, 0, 0], [0 :: real, 0, 0]] \<noteq> []"
    by simp
  have p: "\<forall>item \<in> set [(''B'', 1 :: nat, [[180 :: real, 0, 0]])].
      fst (snd item) = 0 \<longrightarrow> snd (snd item) = []"
    by simp
  have e: "Inr demo_result \<noteq> (Inl IndexError :: error + (string, demo_data phase_library, string list) library)"
    "\<forall>e. Inr demo_result \<noteq> (Inl (Raised e) :: error + (string, demo_data phase_library, string list) library)"
    by simp_all
  from t have c: "cell_parameters (lattice (demo_store_after 0)) = cell_parameters (lattice (demo_store 0))"
    "cell_parameters (lattice (demo_store_after 1)) = cell_parameters (lattice (demo_store 1))"
    by blast+
  from t have "items (struct_lib demo_library)
        = [] @ (''A'', 0, [[0, 0, 0], [180, 0, 0], [0, 0, 0]]) # [(''B'', 1, [[180, 0, 0]])] \<and>
      [[0, 0, 0], [180, 0, 0], [0 :: real, 0, 0]] \<noteq> [] \<and>
      (\<forall>item \<in> set [(''B'', 1 :: nat, [[180 :: real, 0, 0]])]. fst (snd item) = 0 \<longrightarrow> snd (snd item) = []) \<and>
      Inr demo_result \<noteq> (Inl IndexError :: error + (string, demo_data phase_library, string list) library) \<and>
      (\<forall>e. Inr demo_result \<noteq> (Inl (Raised e) :: error + (string, demo_data phase_library, string list) library))
      \<longrightarrow> latt_rot demo_X (cell_parameters (lattice (demo_store 0)))
            (last [[0, 0, 0], [180, 0, 0], [0, 0, 0]]) = Inr (lattice (demo_store_after 0))"
    by blast
  with i n p e have "latt_rot demo_X (cell_parameters (lattice (demo_store 0)))
      (last [[0, 0, 0], [180, 0, 0], [0, 0, 0]]) = Inr (lattice (demo_store_after 0))"
    by blast
  with demo_run i c show ?thesis by blast
qed

text \<open>
  C10, as stated, fails when two phases refer to the same structure object: after the
  call the structure of the first phase holds the lattice built for the last orientation
  of the second phase, not of its own list.
\<close>

theorem shared_structure_counterexample:
  "get_diffraction_library demo_X demo_shared (1 / 100) 1 (72, 72) True demo_store
     = (Inr demo_shared_result, demo_shared_store_after) \<and>
   (''A'', 0, [[0, 0, 0]]) \<in> set (items (struct_lib demo_shared)) \<and>
   latt_rot demo_X (cell_parameters (lattice (demo_store 0))) (last [[0, 0, 0]])
     = Inr (Lattice 3 3 3 90 90 90 [[1, 0, 0], [0, 1, 0], [0, 0, 1]]) \<and>
   lattice (demo_shared_store_after 0) = Lattice 3 3 3 90 90 90 [[- 1, 0, 0], [0, - 1, 0], [0, 0, 1]] \<and>
   latt_rot demo_X (cell_parameters (lattice (demo_store 0))) (last [[0, 0, 0]])
     \<noteq> Inr (lattice (demo_shared_store_after 0))"
proof -
  have a: "(''A'', 0, [[0, 0, 0]]) \<in> set (items (struct_lib demo_shared))"
    by (simp add: demo_shared_def)
  have b: "latt_rot demo_X (cell_parameters (lattice (demo_store 0))) (last [[0, 0, 0]])
      = Inr (Lattice 3 3 3 90 90 90 [[1, 0, 0], [0, 1, 0], [0, 0, 1]])"
    by (simp add: demo_store_def demo_structure_placed demo_X_def)
  have c: "lattice (demo_shared_store_after 0)
      = Lattice 3 3 3 90 90 90 [[- 1, 0, 0], [0, - 1, 0], [0, 0, 1]]"
    by (simp add: demo_shared_store_after_def demo_placed_def)
  have d: "Lattice 3 3 3 90 90 90 [[1, 0, 0], [0, 1, 0], [0, 0, 1]]
      \<noteq> Lattice 3 3 3 90 90 90 [[- 1, 0, 0], [0, - 1, 0], [0, 0, 1]]"
    by (simp add: Lattice_def)
  from demo_run_shared a b c d show ?thesis by simp
qed

end
